theory Spec2Isabelle
  imports Complex_Main "HOL-Library.AList"
begin

section \<open>Conventions of the embedding\<close>

text \<open>
  The program is Python. Its \<open>float\<close> values are modelled in two ways.

  In the exact model a float is a HOL real: arithmetic is exact, there is no rounding, no
  overflow and no infinity. The one non-real value the modelled functions can produce
  from real inputs on the paths considered there is the NaN that pandas and numpy return
  for a sample statistic (standard deviation, covariance) of fewer than two observations;
  a value that may be NaN has type \<open>real option\<close>, with \<open>None\<close> for NaN. The analyzer,
  \<open>total_return\<close>, \<open>volatility\<close> and the within-band test of the rebalancer are stated in
  this model.

  In the floating-point model a float is a binary64 value and every operation rounds its
  exact result to the nearest float. The share quantities, the tax and the exceptions of
  \<open>rebalance\<close>, and \<open>beta\<close>, are stated in this model: they depend on the floor of a rounded
  quotient, on the inputs for which \<open>math.floor\<close> raises, and on a test for exact equality
  with 0.

  What raises in Python is a value of the sum type \<open>error + 'a\<close>: \<open>Inl\<close> carries the
  exception, \<open>Inr\<close> the value returned.
\<close>

datatype error = ValueError | ZeroDivisionError | OverflowError

section \<open>Data model (core/models.py, core/rebalancer.py)\<close>

record Holding =
  ticker :: string
  name :: string
  quantity :: real
  avg_cost :: real
  currency :: string

record HoldingAnalysis =
  ticker :: string
  name :: string
  quantity :: real
  avg_cost :: real
  current_price :: real
  market_value :: real
  weight_pct :: real
  return_pct :: real
  sector :: string

record RebalanceOrder =
  ticker :: string
  name :: string
  action :: string
  quantity :: int
  current_price :: real
  estimated_cost :: real


section \<open>Rebalancer (core/rebalancer.py)\<close>


text \<open>\<open>target_weights.get(holding.ticker, 0.0)\<close>\<close>

definition target_pct :: "(string \<rightharpoonup> real) \<Rightarrow> HoldingAnalysis \<Rightarrow> real" where
  "target_pct target_weights holding =
     (case target_weights (HoldingAnalysis.ticker holding) of None \<Rightarrow> 0 | Some w \<Rightarrow> w)"

definition diff_pct :: "(string \<rightharpoonup> real) \<Rightarrow> HoldingAnalysis \<Rightarrow> real" where
  "diff_pct target_weights holding = target_pct target_weights holding - weight_pct holding"

definition target_value :: "(string \<rightharpoonup> real) \<Rightarrow> real \<Rightarrow> HoldingAnalysis \<Rightarrow> real" where
  "target_value target_weights total_value holding =
     total_value * (target_pct target_weights holding / 100)"

definition diff_value :: "(string \<rightharpoonup> real) \<Rightarrow> real \<Rightarrow> HoldingAnalysis \<Rightarrow> real" where
  "diff_value target_weights total_value holding =
     target_value target_weights total_value holding - market_value holding"












subsection \<open>The fixtures of tests/test_rebalancer.py\<close>



definition test_target_weights :: "string \<rightharpoonup> real" where
  "test_target_weights = [''AAPL'' \<mapsto> 40, ''MSFT'' \<mapsto> 60]"

section \<open>Data model, continued (core/models.py)\<close>

text \<open>
  \<open>as_of_date\<close> is a calendar date, kept as a day number; nothing below reads it.
  In \<open>AnalysisResult\<close> the four metrics that go through a sample standard deviation or
  covariance may be NaN and have type \<open>real option\<close>.
\<close>

record Portfolio =
  name :: string
  holdings :: "Holding list"
  currency :: string
  as_of_date :: int

record AnalysisResult =
  portfolio_name :: string
  total_value :: real
  total_cost :: real
  total_return_pct :: real
  annualized_return_pct :: real
  volatility_pct :: "real option"
  sharpe_ratio :: "real option"
  max_drawdown_pct :: real
  beta :: "real option"
  alpha_pct :: "real option"
  currency :: string
  holdings_analysis :: "HoldingAnalysis list"
  benchmark_ticker :: string
  ai_insights :: "string option"

text \<open>The properties \<open>Holding.total_cost\<close> and \<open>Portfolio.total_cost\<close>.\<close>

definition Holding_total_cost :: "Holding \<Rightarrow> real" where
  "Holding_total_cost h = Holding.quantity h * Holding.avg_cost h"

definition Portfolio_total_cost :: "Portfolio \<Rightarrow> real" where
  "Portfolio_total_cost p = sum_list (map Holding_total_cost (holdings p))"

section \<open>Metrics library (utils/metrics.py)\<close>

text \<open>
  A \<open>pd.Series\<close> of floats is the list of its values, in index order. The functions of
  this section read a series by position only.
\<close>

definition total_return :: "real \<Rightarrow> real \<Rightarrow> error + real" where
  "total_return initial final =
     (if initial \<le> 0 then Inl ValueError
      else Inr (((final - initial) / initial) * 100))"

text \<open>
  Python's \<open>x ** y\<close> on floats: \<open>x\<close> to an integral power when \<open>y\<close> is integral (so
  \<open>x ** 1.0\<close> is \<open>x\<close>, whatever its sign), and \<open>x powr y\<close> otherwise, which is Python's
  value for \<open>x > 0\<close> and for \<open>x = 0\<close> with \<open>y > 0\<close>. For a negative base and a fractional
  exponent Python yields a complex number, and for a zero base and a negative exponent
  it raises; neither case is modelled. \<open>analyze\<close> passes \<open>years = 1.0\<close>, so the exponent
  is 1 there.
\<close>

definition float_pow :: "real \<Rightarrow> real \<Rightarrow> real" where
  "float_pow x y = (if y = of_int \<lfloor>y\<rfloor> then x powi \<lfloor>y\<rfloor> else x powr y)"

definition annualized_return :: "real \<Rightarrow> real \<Rightarrow> error + real" where
  "annualized_return total_return_pct years =
     (if years \<le> 0 then Inl ValueError
      else Inr ((float_pow (1 + total_return_pct / 100) (1 / years) - 1) * 100))"
  for total_return_pct

text \<open>
  \<open>Series.mean()\<close> and \<open>Series.std()\<close>. The standard deviation is the sample one (pandas
  divides by \<open>n - 1\<close>); for fewer than two observations pandas returns NaN.
\<close>

definition series_mean :: "real list \<Rightarrow> real" where
  "series_mean xs = sum_list xs / of_nat (length xs)"

definition series_std :: "real list \<Rightarrow> real option" where
  "series_std xs =
     (if length xs < 2 then None
      else Some (sqrt (sum_list (map (\<lambda>x. (x - series_mean xs)\<^sup>2) xs) / of_nat (length xs - 1))))"

definition volatility :: "real list \<Rightarrow> bool \<Rightarrow> real option" where
  "volatility returns annualize =
     (if returns = [] then Some 0
      else case series_std returns of
             None \<Rightarrow> None
           | Some std \<Rightarrow> if annualize then Some (std * sqrt 252) else Some std)"

definition sharpe_ratio :: "real list \<Rightarrow> real \<Rightarrow> real option" where
  "sharpe_ratio returns risk_free_rate =
     (if returns = [] then Some 0
      else case volatility returns True of
             None \<Rightarrow> None
           | Some vol \<Rightarrow>
               if vol < 1 / 10 ^ 10 then Some 0
               else let mean_return = series_mean returns * 252
                    in Some ((mean_return - risk_free_rate) / vol))"

text \<open>
  \<open>Series.cummax()\<close>, the running maximum, and \<open>Series.min()\<close>. \<open>max_drawdown\<close> divides by
  the running maximum elementwise; numpy does not raise on a zero divisor there (it
  yields NaN or an infinity), a case the model does not represent: the prices of a
  series are taken to be other than 0.
\<close>

fun cummax_from :: "real \<Rightarrow> real list \<Rightarrow> real list" where
  "cummax_from m [] = []"
| "cummax_from m (x # xs) = max m x # cummax_from (max m x) xs"

definition cummax :: "real list \<Rightarrow> real list" where
  "cummax prices = (case prices of [] \<Rightarrow> [] | x # xs \<Rightarrow> x # cummax_from x xs)"

definition series_min :: "real list \<Rightarrow> real" where
  "series_min xs = (case xs of [] \<Rightarrow> 0 | x # ys \<Rightarrow> fold min ys x)"

definition max_drawdown :: "real list \<Rightarrow> real" where
  "max_drawdown prices =
     (if prices = [] then 0
      else let drawdown = map2 (\<lambda>p c. (p - c) / c) prices (cummax prices)
           in series_min drawdown * 100)"

text \<open>
  \<open>np.cov(p, b)\<close> for two arrays of the same length: the sample covariance matrix, whose
  entries divide the sums of products of deviations by \<open>n - 1\<close>. Only the entries
  \<open>cov[0, 1]\<close> and \<open>cov[1, 1]\<close> are read; they are the pair returned here. For a single
  observation numpy returns NaN in every entry; then \<open>var_benchmark == 0\<close> is false and
  \<open>beta\<close> returns the NaN quotient.
\<close>

definition cov_sum :: "real list \<Rightarrow> real list \<Rightarrow> real" where
  "cov_sum xs ys =
     sum_list (map2 (\<lambda>x y. (x - series_mean xs) * (y - series_mean ys)) xs ys)"

definition np_cov :: "real list \<Rightarrow> real list \<Rightarrow> (real \<times> real) option" where
  "np_cov p b =
     (if length p < 2 then None
      else Some (cov_sum p b / of_nat (length p - 1), cov_sum b b / of_nat (length p - 1)))"

definition beta :: "real list \<Rightarrow> real list \<Rightarrow> real option" where
  "beta portfolio_returns benchmark_returns =
     (if portfolio_returns = [] \<or> benchmark_returns = [] then Some 0
      else
        let min_len = min (length portfolio_returns) (length benchmark_returns);
            p = take min_len portfolio_returns;
            b = take min_len benchmark_returns
        in case np_cov p b of
             None \<Rightarrow> None
           | Some (cov01, var_benchmark) \<Rightarrow>
               if var_benchmark = 0 then Some 0 else Some (cov01 / var_benchmark))"

definition alpha :: "real \<Rightarrow> real \<Rightarrow> real \<Rightarrow> real \<Rightarrow> real" where
  "alpha portfolio_return benchmark_return beta_value risk_free_rate =
     portfolio_return - (risk_free_rate + beta_value * (benchmark_return - risk_free_rate))"

text \<open>
  Comparing two floats within a tolerance, as \<open>==\<close>, \<open>math.isclose\<close> and \<open>pytest.approx\<close>
  do: a NaN is close to nothing, not even to a NaN.
\<close>

definition float_close :: "real option \<Rightarrow> real option \<Rightarrow> real \<Rightarrow> bool" where
  "float_close a b eps =
     (case a of None \<Rightarrow> False
      | Some x \<Rightarrow> (case b of None \<Rightarrow> False | Some y \<Rightarrow> \<bar>x - y\<bar> \<le> eps))"

section \<open>Analyzer (core/analyzer.py)\<close>

text \<open>
  The market-data collaborator (data/market_data.py) is given by its three operations.
  They catch every exception themselves and return \<open>None\<close>, \<open>''Unknown''\<close> or an empty
  series instead; the provider is taken to answer the same question the same way
  throughout one call of \<open>analyze\<close>, as the test doubles of tests/test_analyzer.py do. A
  historical price series is the list of its closing prices, oldest first.
\<close>

record MarketDataProvider =
  get_current_price :: "string \<Rightarrow> real option"
  get_sector :: "string \<Rightarrow> string"
  get_historical_prices :: "string \<Rightarrow> real list"

text \<open>The class \<open>_HoldingData\<close>.\<close>

record HoldingData =
  ticker :: string
  name :: string
  quantity :: real
  avg_cost :: real
  current_price :: real
  market_value :: real
  sector :: string

text \<open>\<open>_gather_holdings_data\<close>: the loop over \<open>portfolio.holdings\<close>, then the method.\<close>

fun gather_loop :: "MarketDataProvider \<Rightarrow> Holding list \<Rightarrow> HoldingData list" where
  "gather_loop market [] = []"
| "gather_loop market (holding # rest) =
     (case get_current_price market (Holding.ticker holding) of
        None \<Rightarrow> gather_loop market rest
      | Some price \<Rightarrow>
          \<lparr>HoldingData.ticker = Holding.ticker holding,
           HoldingData.name = Holding.name holding,
           HoldingData.quantity = Holding.quantity holding,
           HoldingData.avg_cost = Holding.avg_cost holding,
           HoldingData.current_price = price,
           HoldingData.market_value = Holding.quantity holding * price,
           HoldingData.sector = get_sector market (Holding.ticker holding)\<rparr>
          # gather_loop market rest)"

definition gather_holdings_data :: "MarketDataProvider \<Rightarrow> Portfolio \<Rightarrow> HoldingData list" where
  "gather_holdings_data market portfolio = gather_loop market (holdings portfolio)"

text \<open>
  The generator of lines 45 to 58, one element at a time. \<open>return_pct\<close> divides two Python
  floats by \<open>h.avg_cost\<close>, which raises \<open>ZeroDivisionError\<close> when that is 0; the division
  in \<open>weight_pct\<close> is guarded.
\<close>

definition holding_analysis_of :: "real \<Rightarrow> HoldingData \<Rightarrow> error + HoldingAnalysis" where
  "holding_analysis_of total_value h =
     (if HoldingData.avg_cost h = 0 then Inl ZeroDivisionError
      else Inr
        \<lparr>HoldingAnalysis.ticker = HoldingData.ticker h,
         HoldingAnalysis.name = HoldingData.name h,
         HoldingAnalysis.quantity = HoldingData.quantity h,
         HoldingAnalysis.avg_cost = HoldingData.avg_cost h,
         HoldingAnalysis.current_price = HoldingData.current_price h,
         HoldingAnalysis.market_value = HoldingData.market_value h,
         HoldingAnalysis.weight_pct =
           (if total_value > 0 then (HoldingData.market_value h / total_value) * 100 else 0),
         HoldingAnalysis.return_pct =
           ((HoldingData.current_price h - HoldingData.avg_cost h) / HoldingData.avg_cost h) * 100,
         HoldingAnalysis.sector = HoldingData.sector h\<rparr>)"
  for total_value

fun build_holdings_analysis :: "real \<Rightarrow> HoldingData list \<Rightarrow> error + HoldingAnalysis list" where
  "build_holdings_analysis tv [] = Inr []"
| "build_holdings_analysis tv (h # rest) =
     (case holding_analysis_of tv h of
        Inl e \<Rightarrow> Inl e
      | Inr a \<Rightarrow>
          (case build_holdings_analysis tv rest of
             Inl e \<Rightarrow> Inl e
           | Inr as \<Rightarrow> Inr (a # as)))"

text \<open>
  The loop that fills the dict \<open>all_prices\<close> (lines 118 to 122 and 151 to 155). A Python
  dict keeps its keys in the order of their first insertion and a second assignment to a
  key replaces the value in place, which is what \<open>AList.update\<close> does.
\<close>

definition all_prices_of ::
  "MarketDataProvider \<Rightarrow> HoldingAnalysis list \<Rightarrow> (string \<times> real list) list" where
  "all_prices_of market holdings_analysis =
     fold (\<lambda>h all_prices.
             let prices = get_historical_prices market (HoldingAnalysis.ticker h)
             in if prices \<noteq> [] then AList.update (HoldingAnalysis.ticker h) prices all_prices
                else all_prices)
       holdings_analysis []"
  for holdings_analysis

text \<open>
  A \<open>pd.DataFrame\<close> is the list of its columns. The series of one call share their index
  from the first row on (as the \<open>RangeIndex\<close> series of the tests do), so that the rows
  without a missing value, which \<open>pd.DataFrame(all_prices).dropna()\<close> keeps, are those up
  to the length of the shortest series. \<open>pct_change().dropna()\<close> is the change relative to
  the row before, without the first row; a zero price, on which numpy would yield an
  infinity or NaN, is not represented. \<open>DataFrame.dot\<close> with an array raises \<open>ValueError\<close>
  when the number of columns differs from the length of the array.
\<close>

definition frame_dropna :: "real list list \<Rightarrow> real list list" where
  "frame_dropna cols =
     (let n = (case cols of [] \<Rightarrow> 0 | c # cs \<Rightarrow> fold min (map length cs) (length c))
      in map (take n) cols)"

definition frame_empty :: "real list list \<Rightarrow> bool" where
  "frame_empty cols = list_all (\<lambda>c. c = []) cols"

definition pct_change_dropna :: "real list \<Rightarrow> real list" where
  "pct_change_dropna prices = map2 (\<lambda>prev cur. cur / prev - 1) (butlast prices) (tl prices)"

definition frame_dot :: "real list list \<Rightarrow> real list \<Rightarrow> error + real list" where
  "frame_dot cols weights =
     (if length cols \<noteq> length weights then Inl ValueError
      else Inr (map (\<lambda>i. sum_list (map2 (\<lambda>c w. c ! i * w) cols weights))
                  [0 ..< (case cols of [] \<Rightarrow> 0 | c # cs \<Rightarrow> length c)]))"

text \<open>
  \<open>np.array([h.weight_pct / 100 for h in holdings_analysis if h.ticker in all_prices])\<close>
\<close>

definition price_weights ::
  "(string \<times> real list) list \<Rightarrow> HoldingAnalysis list \<Rightarrow> real list" where
  "price_weights all_prices holdings_analysis =
     map (\<lambda>h. weight_pct h / 100)
       (filter (\<lambda>h. HoldingAnalysis.ticker h \<in> fst ` set all_prices) holdings_analysis)"
  for holdings_analysis

definition compute_portfolio_returns ::
  "MarketDataProvider \<Rightarrow> HoldingAnalysis list \<Rightarrow> Portfolio \<Rightarrow> error + real list" where
  "compute_portfolio_returns market holdings_analysis portfolio =
     (let all_prices = all_prices_of market holdings_analysis in
      if all_prices = [] then Inr []
      else
        let price_df = frame_dropna (map snd all_prices) in
        if frame_empty price_df then Inr []
        else
          let weights = price_weights all_prices holdings_analysis;
              returns_df = map pct_change_dropna price_df
          in if frame_empty returns_df then Inr []
             else frame_dot returns_df weights)"
  for holdings_analysis

definition get_benchmark_returns :: "MarketDataProvider \<Rightarrow> string \<Rightarrow> real list" where
  "get_benchmark_returns market benchmark =
     (let prices = get_historical_prices market benchmark in
      if prices = [] then [] else pct_change_dropna prices)"

definition compute_max_drawdown ::
  "MarketDataProvider \<Rightarrow> HoldingAnalysis list \<Rightarrow> Portfolio \<Rightarrow> error + real" where
  "compute_max_drawdown market holdings_analysis portfolio =
     (let all_prices = all_prices_of market holdings_analysis in
      if all_prices = [] then Inr 0
      else
        let price_df = frame_dropna (map snd all_prices) in
        if frame_empty price_df then Inr 0
        else
          let weights = price_weights all_prices holdings_analysis
          in case frame_dot price_df weights of
               Inl e \<Rightarrow> Inl e
             | Inr portfolio_value \<Rightarrow> Inr (max_drawdown portfolio_value))"
  for holdings_analysis

definition compute_benchmark_total_return :: "MarketDataProvider \<Rightarrow> string \<Rightarrow> error + real" where
  "compute_benchmark_total_return market benchmark =
     (let prices = get_historical_prices market benchmark in
      if prices = [] \<or> length prices < 2 then Inr 0
      else total_return (hd prices) (last prices))"

definition empty_result :: "Portfolio \<Rightarrow> string \<Rightarrow> AnalysisResult" where
  "empty_result portfolio benchmark =
     \<lparr>portfolio_name = Portfolio.name portfolio,
      total_value = 0,
      total_cost = Portfolio_total_cost portfolio,
      total_return_pct = 0,
      annualized_return_pct = 0,
      volatility_pct = Some 0,
      AnalysisResult.sharpe_ratio = Some 0,
      max_drawdown_pct = 0,
      AnalysisResult.beta = Some 0,
      alpha_pct = Some 0,
      AnalysisResult.currency = Portfolio.currency portfolio,
      holdings_analysis = [],
      benchmark_ticker = benchmark,
      ai_insights = None\<rparr>"

definition analyze :: "MarketDataProvider \<Rightarrow> Portfolio \<Rightarrow> string \<Rightarrow> error + AnalysisResult" where
  "analyze market portfolio benchmark =
     (let holdings_data = gather_holdings_data market portfolio in
      if holdings_data = [] then Inr (empty_result portfolio benchmark)
      else
        let total_value = sum_list (map HoldingData.market_value holdings_data);
            total_cost = sum_list (map (\<lambda>h. HoldingData.avg_cost h * HoldingData.quantity h)
                                     holdings_data)
        in
        case build_holdings_analysis total_value holdings_data of
          Inl e \<Rightarrow> Inl e
        | Inr holdings_analysis \<Rightarrow>
        case compute_portfolio_returns market holdings_analysis portfolio of
          Inl e \<Rightarrow> Inl e
        | Inr portfolio_returns \<Rightarrow>
        let benchmark_returns = get_benchmark_returns market benchmark in
        case total_return total_cost total_value of
          Inl e \<Rightarrow> Inl e
        | Inr total_ret \<Rightarrow>
        case annualized_return total_ret 1 of
          Inl e \<Rightarrow> Inl e
        | Inr ann_ret \<Rightarrow>
        let vol = volatility portfolio_returns True;
            sr = sharpe_ratio portfolio_returns (2 / 100)
        in
        case compute_max_drawdown market holdings_analysis portfolio of
          Inl e \<Rightarrow> Inl e
        | Inr mdd \<Rightarrow>
        let b = beta portfolio_returns benchmark_returns in
        case compute_benchmark_total_return market benchmark of
          Inl e \<Rightarrow> Inl e
        | Inr benchmark_total_ret \<Rightarrow>
        let a = map_option (\<lambda>beta_value. alpha ann_ret benchmark_total_ret beta_value (2 / 100)) b
        in
        Inr \<lparr>portfolio_name = Portfolio.name portfolio,
             total_value = total_value,
             total_cost = total_cost,
             total_return_pct = total_ret,
             annualized_return_pct = ann_ret,
             volatility_pct = map_option (\<lambda>v. v * 100) vol,
             AnalysisResult.sharpe_ratio = sr,
             max_drawdown_pct = mdd,
             AnalysisResult.beta = b,
             alpha_pct = a,
             AnalysisResult.currency = Portfolio.currency portfolio,
             holdings_analysis = holdings_analysis,
             benchmark_ticker = benchmark,
             ai_insights = None\<rparr>)"
  for total_value total_cost holdings_analysis

text \<open>
  A holding is resolvable when the provider has a current price for its ticker, that is
  when the test \<open>price is None\<close> of line 97 fails.
\<close>

definition resolvable :: "MarketDataProvider \<Rightarrow> Holding \<Rightarrow> bool" where
  "resolvable market holding = (get_current_price market (Holding.ticker holding) \<noteq> None)"

subsection \<open>Fixtures after tests/test_analyzer.py\<close>

text \<open>
  The portfolio of the tests, and a provider with the current prices of the tests and
  no historical prices.
\<close>

definition test_market :: MarketDataProvider where
  "test_market =
     \<lparr>get_current_price = [''AAPL'' \<mapsto> 175, ''MSFT'' \<mapsto> 350, ''SPY'' \<mapsto> 450],
      get_sector = (\<lambda>t. if t = ''AAPL'' \<or> t = ''MSFT'' then ''Technology'' else ''Unknown''),
      get_historical_prices = (\<lambda>t. [])\<rparr>"

definition test_portfolio :: Portfolio where
  "test_portfolio =
     \<lparr>Portfolio.name = ''Test Portfolio'',
      holdings =
        [\<lparr>Holding.ticker = ''AAPL'', Holding.name = ''Apple Inc.'', Holding.quantity = 10,
          Holding.avg_cost = 150, Holding.currency = ''USD''\<rparr>,
         \<lparr>Holding.ticker = ''MSFT'', Holding.name = ''Microsoft Corp.'', Holding.quantity = 5,
          Holding.avg_cost = 300, Holding.currency = ''USD''\<rparr>],
      Portfolio.currency = ''USD'',
      as_of_date = 0\<rparr>"

text \<open>
  After \<open>test_analyze_missing_price_skips_holding\<close>: a provider that knows AAPL only, with
  a price history of two days, and portfolios that hold AAPL and the unknown FAKE, the
  second one with AAPL in two lots.
\<close>

definition partial_market :: MarketDataProvider where
  "partial_market =
     \<lparr>get_current_price = [''AAPL'' \<mapsto> 175],
      get_sector = (\<lambda>t. if t = ''AAPL'' then ''Technology'' else ''Unknown''),
      get_historical_prices = (\<lambda>t. if t = ''AAPL'' then [150, 151] else [])\<rparr>"

definition partial_portfolio :: Portfolio where
  "partial_portfolio =
     \<lparr>Portfolio.name = ''Test'',
      holdings =
        [\<lparr>Holding.ticker = ''AAPL'', Holding.name = ''Apple Inc.'', Holding.quantity = 10,
          Holding.avg_cost = 150, Holding.currency = ''USD''\<rparr>,
         \<lparr>Holding.ticker = ''FAKE'', Holding.name = ''Fake Corp.'', Holding.quantity = 5,
          Holding.avg_cost = 100, Holding.currency = ''USD''\<rparr>],
      Portfolio.currency = ''USD'',
      as_of_date = 0\<rparr>"

definition two_lots_portfolio :: Portfolio where
  "two_lots_portfolio =
     \<lparr>Portfolio.name = ''Test'',
      holdings =
        [\<lparr>Holding.ticker = ''AAPL'', Holding.name = ''Apple Inc.'', Holding.quantity = 10,
          Holding.avg_cost = 150, Holding.currency = ''USD''\<rparr>,
         \<lparr>Holding.ticker = ''AAPL'', Holding.name = ''Apple Inc.'', Holding.quantity = 5,
          Holding.avg_cost = 160, Holding.currency = ''USD''\<rparr>,
         \<lparr>Holding.ticker = ''FAKE'', Holding.name = ''Fake Corp.'', Holding.quantity = 5,
          Holding.avg_cost = 100, Holding.currency = ''USD''\<rparr>],
      Portfolio.currency = ''USD'',
      as_of_date = 0\<rparr>"

section \<open>Floating-point arithmetic (IEEE 754 binary64)\<close>

text \<open>
  A Python \<open>float\<close> is an IEEE 754 binary64 value: a finite real number, one of the two
  infinities, or NaN. The two zeros are identified: no operation modelled below
  distinguishes them, since the only division by a zero that does not raise divides by
  the literal \<open>0.0\<close>.
\<close>

datatype pyfloat = Fin real | PInf | NInf | NaN

text \<open>Rounding of a real to the nearest integer, a tie going to the even one.\<close>

definition round_half_even :: "real \<Rightarrow> int" where
  "round_half_even x =
     (let f = \<lfloor>x\<rfloor>; d = x - of_int f
      in if d < 1 / 2 then f else if 1 / 2 < d then f + 1 else if even f then f else f + 1)"

text \<open>
  \<open>2 ^ 1024\<close>, the magnitude from which a rounded result is an infinity, and \<open>2 ^ - 1074\<close>,
  the least positive float.
\<close>

definition overflow_threshold :: real where
  "overflow_threshold = 2 ^ 1024"

definition min_subnormal :: real where
  "min_subnormal = 2 powi (- 1074)"

text \<open>
  \<open>binary64 x\<close> is the float nearest to the real \<open>x\<close>, a tie going to the even significand:
  the result of every IEEE operation whose exact value is \<open>x\<close>. For \<open>x\<close> other than 0 the
  exponent \<open>e\<close> is that of \<open>x\<close>, but at least \<open>- 1022\<close> (below it the floats are subnormal and
  keep the spacing \<open>2 ^ - 1074\<close>); \<open>x\<close> is rounded to a multiple of \<open>2 ^ (e - 52)\<close>, and a
  rounded value of magnitude \<open>2 ^ 1024\<close> or more is an infinity.
\<close>

definition binary64 :: "real \<Rightarrow> pyfloat" where
  "binary64 x =
     (if x = 0 then Fin 0
      else
        let e = max \<lfloor>log 2 \<bar>x\<bar>\<rfloor> (- 1022);
            q = 2 powi (e - 52);
            y = of_int (round_half_even (x / q)) * q
        in if overflow_threshold \<le> \<bar>y\<bar> then (if 0 < x then PInf else NInf) else Fin y)"

text \<open>
  Negation, \<open>abs\<close>, the four arithmetic operations and the two order comparisons on
  floats. A comparison with NaN is false. \<open>fdiv\<close> is the IEEE division, which numpy uses:
  on a zero divisor it gives an infinity or NaN.
\<close>

fun fneg :: "pyfloat \<Rightarrow> pyfloat" where
  "fneg (Fin a) = Fin (- a)"
| "fneg PInf = NInf"
| "fneg NInf = PInf"
| "fneg NaN = NaN"

fun fabs :: "pyfloat \<Rightarrow> pyfloat" where
  "fabs (Fin a) = Fin \<bar>a\<bar>"
| "fabs PInf = PInf"
| "fabs NInf = PInf"
| "fabs NaN = NaN"

fun fadd :: "pyfloat \<Rightarrow> pyfloat \<Rightarrow> pyfloat" where
  "fadd (Fin a) (Fin b) = binary64 (a + b)"
| "fadd (Fin a) PInf = PInf"
| "fadd (Fin a) NInf = NInf"
| "fadd PInf (Fin b) = PInf"
| "fadd NInf (Fin b) = NInf"
| "fadd PInf PInf = PInf"
| "fadd NInf NInf = NInf"
| "fadd PInf NInf = NaN"
| "fadd NInf PInf = NaN"
| "fadd NaN b = NaN"
| "fadd (Fin a) NaN = NaN"
| "fadd PInf NaN = NaN"
| "fadd NInf NaN = NaN"

definition fsub :: "pyfloat \<Rightarrow> pyfloat \<Rightarrow> pyfloat" where
  "fsub a b = fadd a (fneg b)"

fun fmul :: "pyfloat \<Rightarrow> pyfloat \<Rightarrow> pyfloat" where
  "fmul (Fin a) (Fin b) = binary64 (a * b)"
| "fmul (Fin a) PInf = (if a = 0 then NaN else if 0 < a then PInf else NInf)"
| "fmul (Fin a) NInf = (if a = 0 then NaN else if 0 < a then NInf else PInf)"
| "fmul PInf (Fin b) = (if b = 0 then NaN else if 0 < b then PInf else NInf)"
| "fmul NInf (Fin b) = (if b = 0 then NaN else if 0 < b then NInf else PInf)"
| "fmul PInf PInf = PInf"
| "fmul NInf NInf = PInf"
| "fmul PInf NInf = NInf"
| "fmul NInf PInf = NInf"
| "fmul NaN b = NaN"
| "fmul (Fin a) NaN = NaN"
| "fmul PInf NaN = NaN"
| "fmul NInf NaN = NaN"

fun fdiv :: "pyfloat \<Rightarrow> pyfloat \<Rightarrow> pyfloat" where
  "fdiv (Fin a) (Fin b) =
     (if b = 0 then (if a = 0 then NaN else if 0 < a then PInf else NInf)
      else binary64 (a / b))"
| "fdiv (Fin a) PInf = Fin 0"
| "fdiv (Fin a) NInf = Fin 0"
| "fdiv PInf (Fin b) = (if 0 \<le> b then PInf else NInf)"
| "fdiv NInf (Fin b) = (if 0 \<le> b then NInf else PInf)"
| "fdiv PInf PInf = NaN"
| "fdiv NInf NInf = NaN"
| "fdiv PInf NInf = NaN"
| "fdiv NInf PInf = NaN"
| "fdiv NaN b = NaN"
| "fdiv (Fin a) NaN = NaN"
| "fdiv PInf NaN = NaN"
| "fdiv NInf NaN = NaN"

fun flt :: "pyfloat \<Rightarrow> pyfloat \<Rightarrow> bool" where
  "flt (Fin a) (Fin b) = (a < b)"
| "flt (Fin a) PInf = True"
| "flt (Fin a) NInf = False"
| "flt PInf b = False"
| "flt NInf (Fin b) = True"
| "flt NInf PInf = True"
| "flt NInf NInf = False"
| "flt NaN b = False"
| "flt (Fin a) NaN = False"
| "flt NInf NaN = False"

fun fle :: "pyfloat \<Rightarrow> pyfloat \<Rightarrow> bool" where
  "fle (Fin a) (Fin b) = (a \<le> b)"
| "fle (Fin a) PInf = True"
| "fle (Fin a) NInf = False"
| "fle PInf (Fin b) = False"
| "fle PInf PInf = True"
| "fle PInf NInf = False"
| "fle NInf (Fin b) = True"
| "fle NInf PInf = True"
| "fle NInf NInf = True"
| "fle NaN b = False"
| "fle (Fin a) NaN = False"
| "fle PInf NaN = False"
| "fle NInf NaN = False"

text \<open>Python's own \<open>/\<close> on floats raises \<open>ZeroDivisionError\<close> on a zero divisor.\<close>

definition py_truediv :: "pyfloat \<Rightarrow> pyfloat \<Rightarrow> error + pyfloat" where
  "py_truediv a b = (if b = Fin 0 then Inl ZeroDivisionError else Inr (fdiv a b))"


text \<open>
  \<open>math.floor\<close> on a float: it raises \<open>OverflowError\<close> on an infinity and \<open>ValueError\<close> on
  NaN.
\<close>

fun math_floor :: "pyfloat \<Rightarrow> error + int" where
  "math_floor (Fin a) = Inr \<lfloor>a\<rfloor>"
| "math_floor PInf = Inl OverflowError"
| "math_floor NInf = Inl OverflowError"
| "math_floor NaN = Inl ValueError"

text \<open>
  The conversion of a Python \<open>int\<close> to \<open>float\<close> in a mixed product such as
  \<open>quantity * holding.current_price\<close>; it rounds to the nearest float. (Python raises
  \<open>OverflowError\<close> where this gives an infinity; the integers converted below are floors
  of finite floats, which convert exactly.)
\<close>

definition int_to_float :: "int \<Rightarrow> pyfloat" where
  "int_to_float n = binary64 (of_int n)"

section \<open>Rebalancer in floating-point arithmetic (core/rebalancer.py)\<close>

text \<open>
  \<open>HoldingAnalysis\<close>, \<open>RebalanceOrder\<close> and \<open>RebalanceResult\<close> with float fields, and the
  function \<open>rebalance\<close> with every operation rounded. The names carry the suffix \<open>_f\<close>;
  \<open>order_ticker_f\<close>, \<open>order_name_f\<close>, \<open>order_quantity_f\<close> and \<open>order_price_f\<close> are the fields
  \<open>ticker\<close>, \<open>name\<close>, \<open>quantity\<close> and \<open>current_price\<close> of \<open>RebalanceOrder\<close>.
\<close>

record HoldingAnalysis_f =
  ticker_f :: string
  name_f :: string
  quantity_f :: pyfloat
  avg_cost_f :: pyfloat
  current_price_f :: pyfloat
  market_value_f :: pyfloat
  weight_pct_f :: pyfloat
  return_pct_f :: pyfloat
  sector_f :: string

record RebalanceOrder_f =
  order_ticker_f :: string
  order_name_f :: string
  action_f :: string
  order_quantity_f :: int
  order_price_f :: pyfloat
  estimated_cost_f :: pyfloat

record RebalanceResult_f =
  orders_f :: "RebalanceOrder_f list"
  total_buy_cost_f :: pyfloat
  total_sell_proceeds_f :: pyfloat
  net_cost_f :: pyfloat
  estimated_tax_f :: pyfloat

text \<open>The local variables that the loop updates.\<close>

record rebalance_locals_f =
  orders_l :: "RebalanceOrder_f list"
  total_buy_l :: pyfloat
  total_sell_l :: pyfloat
  estimated_tax_l :: pyfloat

definition target_pct_f :: "(string \<rightharpoonup> pyfloat) \<Rightarrow> HoldingAnalysis_f \<Rightarrow> pyfloat" where
  "target_pct_f target_weights holding =
     (case target_weights (ticker_f holding) of None \<Rightarrow> Fin 0 | Some w \<Rightarrow> w)"

definition diff_pct_f :: "(string \<rightharpoonup> pyfloat) \<Rightarrow> HoldingAnalysis_f \<Rightarrow> pyfloat" where
  "diff_pct_f target_weights holding =
     fsub (target_pct_f target_weights holding) (weight_pct_f holding)"

definition target_value_f :: "(string \<rightharpoonup> pyfloat) \<Rightarrow> pyfloat \<Rightarrow> HoldingAnalysis_f \<Rightarrow> pyfloat" where
  "target_value_f target_weights total_value holding =
     fmul total_value (fdiv (target_pct_f target_weights holding) (Fin 100))"
  for total_value

definition diff_value_f :: "(string \<rightharpoonup> pyfloat) \<Rightarrow> pyfloat \<Rightarrow> HoldingAnalysis_f \<Rightarrow> pyfloat" where
  "diff_value_f target_weights total_value holding =
     fsub (target_value_f target_weights total_value holding) (market_value_f holding)"
  for total_value

definition buy_order_f :: "HoldingAnalysis_f \<Rightarrow> int \<Rightarrow> RebalanceOrder_f" where
  "buy_order_f holding qty =
     \<lparr>order_ticker_f = ticker_f holding,
      order_name_f = name_f holding,
      action_f = ''BUY'',
      order_quantity_f = qty,
      order_price_f = current_price_f holding,
      estimated_cost_f = fmul (int_to_float qty) (current_price_f holding)\<rparr>"

definition sell_order_f :: "HoldingAnalysis_f \<Rightarrow> int \<Rightarrow> RebalanceOrder_f" where
  "sell_order_f holding qty =
     \<lparr>order_ticker_f = ticker_f holding,
      order_name_f = name_f holding,
      action_f = ''SELL'',
      order_quantity_f = qty,
      order_price_f = current_price_f holding,
      estimated_cost_f = fneg (fmul (int_to_float qty) (current_price_f holding))\<rparr>"

text \<open>
  One iteration of the \<open>for holding in holdings\<close> loop (lines 48 to 91). Line 58,
  \<open>int(math.floor(abs(diff_value) / holding.current_price))\<close>, raises
  \<open>ZeroDivisionError\<close> when the price is 0, \<open>OverflowError\<close> when the quotient is an
  infinity and \<open>ValueError\<close> when it is NaN.
\<close>

definition rebalance_step_f ::
  "(string \<rightharpoonup> pyfloat) \<Rightarrow> pyfloat \<Rightarrow> pyfloat \<Rightarrow> pyfloat \<Rightarrow> rebalance_locals_f
     \<Rightarrow> HoldingAnalysis_f \<Rightarrow> error + rebalance_locals_f" where
  "rebalance_step_f target_weights total_value tolerance tax_rate s holding =
     (let target_pct = (case target_weights (ticker_f holding) of None \<Rightarrow> Fin 0 | Some w \<Rightarrow> w);
          diff_pct = fsub target_pct (weight_pct_f holding)
      in
      if fle (fabs diff_pct) tolerance then Inr s
      else
        let target_value = fmul total_value (fdiv target_pct (Fin 100));
            diff_value = fsub target_value (market_value_f holding)
        in
        case py_truediv (fabs diff_value) (current_price_f holding) of
          Inl e \<Rightarrow> Inl e
        | Inr ratio \<Rightarrow>
        case math_floor ratio of
          Inl e \<Rightarrow> Inl e
        | Inr qty \<Rightarrow>
        if qty = 0 then Inr s
        else if flt (Fin 0) diff_value then
          let cost = fmul (int_to_float qty) (current_price_f holding) in
          Inr (s\<lparr>orders_l := orders_l s @
                     [\<lparr>order_ticker_f = ticker_f holding,
                       order_name_f = name_f holding,
                       action_f = ''BUY'',
                       order_quantity_f = qty,
                       order_price_f = current_price_f holding,
                       estimated_cost_f = cost\<rparr>],
                 total_buy_l := fadd (total_buy_l s) cost\<rparr>)
        else
          let proceeds = fmul (int_to_float qty) (current_price_f holding);
              gain_per_share = fsub (current_price_f holding) (avg_cost_f holding);
              tax = (if flt (Fin 0) gain_per_share \<and> flt (Fin 0) tax_rate
                     then fadd (estimated_tax_l s)
                            (fmul (fmul (int_to_float qty) gain_per_share) tax_rate)
                     else estimated_tax_l s)
          in Inr (s\<lparr>orders_l := orders_l s @
                       [\<lparr>order_ticker_f = ticker_f holding,
                         order_name_f = name_f holding,
                         action_f = ''SELL'',
                         order_quantity_f = qty,
                         order_price_f = current_price_f holding,
                         estimated_cost_f = fneg proceeds\<rparr>],
                    total_sell_l := fadd (total_sell_l s) proceeds,
                    estimated_tax_l := tax\<rparr>))"
  for total_value

fun rebalance_loop_f ::
  "(string \<rightharpoonup> pyfloat) \<Rightarrow> pyfloat \<Rightarrow> pyfloat \<Rightarrow> pyfloat \<Rightarrow> rebalance_locals_f
     \<Rightarrow> HoldingAnalysis_f list \<Rightarrow> error + rebalance_locals_f" where
  "rebalance_loop_f tw tv tolerance tax_rate s [] = Inr s"
| "rebalance_loop_f tw tv tolerance tax_rate s (holding # rest) =
     (case rebalance_step_f tw tv tolerance tax_rate s holding of
        Inl e \<Rightarrow> Inl e
      | Inr s' \<Rightarrow> rebalance_loop_f tw tv tolerance tax_rate s' rest)"

definition rebalance_f ::
  "HoldingAnalysis_f list \<Rightarrow> (string \<rightharpoonup> pyfloat) \<Rightarrow> pyfloat \<Rightarrow> pyfloat \<Rightarrow> pyfloat
     \<Rightarrow> error + RebalanceResult_f" where
  "rebalance_f holdings target_weights total_value tolerance tax_rate =
     (case rebalance_loop_f target_weights total_value tolerance tax_rate
             \<lparr>orders_l = [], total_buy_l = Fin 0, total_sell_l = Fin 0,
              estimated_tax_l = Fin 0\<rparr> holdings of
        Inl e \<Rightarrow> Inl e
      | Inr s \<Rightarrow>
          Inr \<lparr>orders_f = orders_l s,
               total_buy_cost_f = total_buy_l s,
               total_sell_proceeds_f = total_sell_l s,
               net_cost_f = fsub (total_buy_l s) (total_sell_l s),
               estimated_tax_f = estimated_tax_l s\<rparr>)"
  for holdings total_value


text \<open>
  The negation of the test of line 52, the quantity of line 58 on its own, the holdings
  for which the loop body reaches one of its two \<open>orders.append\<close> calls, the order
  appended, the condition of line 78 together with the SELL branch, and the amount line
  79 adds to \<open>estimated_tax\<close>.
\<close>

definition outside_band_f :: "(string \<rightharpoonup> pyfloat) \<Rightarrow> pyfloat \<Rightarrow> HoldingAnalysis_f \<Rightarrow> bool" where
  "outside_band_f target_weights tolerance holding =
     (\<not> fle (fabs (diff_pct_f target_weights holding)) tolerance)"

definition share_quantity_f ::
  "(string \<rightharpoonup> pyfloat) \<Rightarrow> pyfloat \<Rightarrow> HoldingAnalysis_f \<Rightarrow> error + int" where
  "share_quantity_f target_weights total_value holding =
     (case py_truediv (fabs (diff_value_f target_weights total_value holding))
             (current_price_f holding) of
        Inl e \<Rightarrow> Inl e
      | Inr ratio \<Rightarrow> math_floor ratio)"
  for total_value


definition order_of_f ::
  "(string \<rightharpoonup> pyfloat) \<Rightarrow> pyfloat \<Rightarrow> HoldingAnalysis_f \<Rightarrow> RebalanceOrder_f" where
  "order_of_f target_weights total_value holding =
     (let qty = (case share_quantity_f target_weights total_value holding of
                   Inl e \<Rightarrow> 0
                 | Inr q \<Rightarrow> q)
      in if flt (Fin 0) (diff_value_f target_weights total_value holding)
         then buy_order_f holding qty
         else sell_order_f holding qty)"
  for total_value

definition taxed_f ::
  "(string \<rightharpoonup> pyfloat) \<Rightarrow> pyfloat \<Rightarrow> pyfloat \<Rightarrow> HoldingAnalysis_f \<Rightarrow> bool" where
  "taxed_f target_weights total_value tax_rate holding =
     (\<not> flt (Fin 0) (diff_value_f target_weights total_value holding)
      \<and> flt (Fin 0) (fsub (current_price_f holding) (avg_cost_f holding))
      \<and> flt (Fin 0) tax_rate)"
  for total_value

definition tax_of_f ::
  "(string \<rightharpoonup> pyfloat) \<Rightarrow> pyfloat \<Rightarrow> pyfloat \<Rightarrow> HoldingAnalysis_f \<Rightarrow> pyfloat" where
  "tax_of_f target_weights total_value tax_rate holding =
     fmul (fmul (int_to_float (order_quantity_f (order_of_f target_weights total_value holding)))
                (fsub (current_price_f holding) (avg_cost_f holding)))
          tax_rate"
  for total_value


subsection \<open>Fixtures\<close>

text \<open>
  The holdings and target weights of tests/test_rebalancer.py; a holding of 13 shares
  at 175.0 that is 65 percent of a portfolio of 3500.0; and a holding whose prices are
  negative.
\<close>

definition test_aapl_f :: HoldingAnalysis_f where
  "test_aapl_f = \<lparr>ticker_f = ''AAPL'', name_f = ''Apple Inc.'',
     quantity_f = Fin 10, avg_cost_f = Fin 150, current_price_f = Fin 175,
     market_value_f = Fin 1750, weight_pct_f = Fin 50,
     return_pct_f = binary64 (1667 / 100), sector_f = ''Technology''\<rparr>"

definition test_msft_f :: HoldingAnalysis_f where
  "test_msft_f = \<lparr>ticker_f = ''MSFT'', name_f = ''Microsoft Corp.'',
     quantity_f = Fin 5, avg_cost_f = Fin 300, current_price_f = Fin 350,
     market_value_f = Fin 1750, weight_pct_f = Fin 50,
     return_pct_f = binary64 (1667 / 100), sector_f = ''Technology''\<rparr>"

definition test_target_weights_f :: "string \<rightharpoonup> pyfloat" where
  "test_target_weights_f = [''AAPL'' \<mapsto> Fin 40, ''MSFT'' \<mapsto> Fin 60]"



section \<open>Properties of binary64 rounding\<close>

lemma round_half_even_cases: "round_half_even x = \<lfloor>x\<rfloor> \<or> round_half_even x = \<lfloor>x\<rfloor> + 1"
  by (simp add: round_half_even_def Let_def)

lemma round_half_even_of_int [simp]: "round_half_even (of_int n) = n"
  by (simp add: round_half_even_def)

lemma round_half_even_ge: "of_int n \<le> x \<Longrightarrow> n \<le> round_half_even x"
proof -
  assume "of_int n \<le> x"
  then have "n \<le> \<lfloor>x\<rfloor>" by (simp add: le_floor_iff)
  then show ?thesis using round_half_even_cases[of x] by auto
qed

lemma round_half_even_le:
  assumes "x \<le> of_int n"
  shows "round_half_even x \<le> n"
proof (cases "x = of_int n")
  case True
  then show ?thesis by simp
next
  case False
  with assms have "x < of_int n" by simp
  then have "\<lfloor>x\<rfloor> < n" by (simp add: floor_less_iff)
  then show ?thesis using round_half_even_cases[of x] by auto
qed

lemma round_half_even_eqI:
  assumes "of_int m - 1 / 2 < x" "x < of_int m + 1 / 2"
  shows "round_half_even x = m"
proof (cases "of_int m \<le> x")
  case True
  then have f: "\<lfloor>x\<rfloor> = m" using assms by (simp add: floor_eq_iff)
  then show ?thesis using assms by (simp add: round_half_even_def Let_def)
next
  case False
  then have f: "\<lfloor>x\<rfloor> = m - 1" using assms by (simp add: floor_eq_iff)
  then show ?thesis using assms by (simp add: round_half_even_def Let_def)
qed

lemma floor_log2_powi:
  assumes "0 < x"
  shows "\<lfloor>log 2 x\<rfloor> = k \<longleftrightarrow> 2 powi k \<le> x \<and> x < 2 powi (k + 1)"
proof -
  have "(2::real) powr real_of_int k = 2 powi k" "(2::real) powr real_of_int (k + 1) = 2 powi (k + 1)"
    using powr_real_of_int'[of 2 k] powr_real_of_int'[of 2 "k + 1"] by simp_all
  then show ?thesis
    using floor_log_eq_powr_iff[of x 2 k] assms by simp
qed

lemma binary64_not_NaN [simp]: "binary64 x \<noteq> NaN"
  by (simp add: binary64_def Let_def)

lemma binary64_0 [simp]: "binary64 0 = Fin 0"
  by (simp add: binary64_def)

lemma binary64_shape:
  assumes "x \<noteq> 0"
  obtains e r where "- 1022 \<le> e" "\<lfloor>log 2 \<bar>x\<bar>\<rfloor> \<le> e" "e = max \<lfloor>log 2 \<bar>x\<bar>\<rfloor> (- 1022)"
    "r = round_half_even (x / 2 powi (e - 52))"
    "binary64 x =
       (if overflow_threshold \<le> \<bar>of_int r * 2 powi (e - 52)\<bar>
        then (if 0 < x then PInf else NInf) else Fin (of_int r * 2 powi (e - 52)))"
proof -
  let ?e = "max \<lfloor>log 2 \<bar>x\<bar>\<rfloor> (- 1022)"
  show ?thesis
    by (rule that[of ?e "round_half_even (x / 2 powi (?e - 52))"])
       (use assms in \<open>simp_all add: binary64_def Let_def\<close>)
qed



lemma binary64_ge_powi:
  assumes "2 powi k \<le> x" "- 1022 \<le> k"
  shows "binary64 x = PInf \<or> (\<exists>y. binary64 x = Fin y \<and> 2 powi k \<le> y)"
proof -
  have pos: "0 < x" using assms(1) by (smt (verit) zero_less_power_int)
  then have nz: "x \<noteq> 0" by simp
  define L where "L = \<lfloor>log 2 x\<rfloor>"
  have L: "2 powi L \<le> x" "x < 2 powi (L + 1)"
    using floor_log2_powi[OF pos, of L] by (simp_all add: L_def)
  have "(2::real) powi k < 2 powi (L + 1)" using assms(1) L(2) by simp
  have kL: "k \<le> L"
  proof (rule ccontr)
    assume "\<not> k \<le> L"
    then have "(2::real) powi (L + 1) \<le> 2 powi k" by (intro power_int_increasing) simp_all
    with \<open>(2::real) powi k < 2 powi (L + 1)\<close> show False by simp
  qed
  from binary64_shape[OF nz] obtain e r where
    e: "e = max \<lfloor>log 2 \<bar>x\<bar>\<rfloor> (- 1022)"
    and r: "r = round_half_even (x / 2 powi (e - 52))"
    and b: "binary64 x =
       (if overflow_threshold \<le> \<bar>of_int r * 2 powi (e - 52)\<bar>
        then (if 0 < x then PInf else NInf) else Fin (of_int r * 2 powi (e - 52)))"
    by blast
  have "e = max L (- 1022)" using e pos by (simp add: L_def)
  then have eL: "e = L" using kL assms(2) by linarith
  have split: "2 ^ 52 * 2 powi (L - 52) = (2::real) powi L"
    using power_int_add[of "2::real" 52 "L - 52"] by simp
  then have "2 ^ 52 * 2 powi (L - 52) \<le> x" using L(1) by simp
  then have "2 ^ 52 \<le> x / 2 powi (L - 52)"
    by (simp add: pos_le_divide_eq)
  then have "of_int (2 ^ 52) \<le> x / 2 powi (e - 52)" by (simp add: eL)
  then have "2 ^ 52 \<le> r" unfolding r by (rule round_half_even_ge)
  then have "(2::real) ^ 52 \<le> of_int r" by (metis of_int_le_iff of_int_numeral of_int_power)
  then have "2 ^ 52 * 2 powi (L - 52) \<le> of_int r * (2::real) powi (L - 52)"
    by (intro mult_right_mono) simp_all
  then have "2 powi L \<le> of_int r * (2::real) powi (L - 52)"
    by (simp only: split)
  moreover have "(2::real) powi k \<le> 2 powi L" using kL by (intro power_int_increasing) simp_all
  ultimately have "2 powi k \<le> of_int r * (2::real) powi (e - 52)" by (simp add: eL)
  then show ?thesis using b pos by (cases "overflow_threshold \<le> \<bar>of_int r * 2 powi (e - 52)\<bar>") simp_all
qed



lemma binary64_eval:
  assumes "2 powi k \<le> \<bar>x\<bar>" "\<bar>x\<bar> < 2 powi (k + 1)" "e = max k (- 1022)"
    and "of_int m - 1 / 2 < x / 2 powi (e - 52)" "x / 2 powi (e - 52) < of_int m + 1 / 2"
    and "\<bar>of_int m * 2 powi (e - 52)\<bar> < overflow_threshold"
  shows "binary64 x = Fin (of_int m * 2 powi (e - 52))"
proof -
  have pos: "0 < \<bar>x\<bar>" using assms(1) by (smt (verit) zero_less_power_int)
  then have nz: "x \<noteq> 0" by simp
  have "\<lfloor>log 2 \<bar>x\<bar>\<rfloor> = k" using floor_log2_powi[OF pos, of k] assms(1,2) by simp
  then have e: "max \<lfloor>log 2 \<bar>x\<bar>\<rfloor> (- 1022) = e" using assms(3) by simp
  have r: "round_half_even (x / 2 powi (e - 52)) = m"
    using assms(4,5) by (rule round_half_even_eqI)
  show ?thesis
    using nz assms(6) by (simp add: binary64_def Let_def e r)
qed

lemma min_subnormal_pos: "0 < min_subnormal"
  by (simp only: min_subnormal_def zero_less_power_int zero_less_numeral)




lemma binary64_1: "binary64 1 = Fin 1"
  using binary64_eval[of 0 1 0 "2 ^ 52"] by (simp add: overflow_threshold_def)




lemma fabs_cases: "fabs a = PInf \<or> fabs a = NaN \<or> (\<exists>y. fabs a = Fin y \<and> 0 \<le> y)"
  by (cases a) simp_all






lemma fdiv_NaN_right [simp]: "fdiv a NaN = NaN"
  by (cases a) simp_all

lemma fmul_NaN_right [simp]: "fmul a NaN = NaN"
  by (cases a) simp_all

lemma fadd_NaN_right [simp]: "fadd a NaN = NaN"
  by (cases a) simp_all

lemma round_half_even_small:
  assumes "\<bar>x\<bar> \<le> 1 / 2"
  shows "round_half_even x = 0"
proof (cases "0 \<le> x")
  case True
  then have "\<lfloor>x\<rfloor> = 0" using assms by (simp add: floor_eq_iff)
  then show ?thesis using assms True by (simp add: round_half_even_def Let_def)
next
  case False
  then have "\<lfloor>x\<rfloor> = - 1" using assms by (simp add: floor_eq_iff)
  then show ?thesis using assms False by (simp add: round_half_even_def Let_def)
qed

lemma binary64_Fin_bound:
  assumes "binary64 x = Fin y"
  shows "\<bar>y\<bar> < overflow_threshold"
proof (cases "x = 0")
  case True
  then show ?thesis using assms by (simp add: overflow_threshold_def)
next
  case False
  from binary64_shape[OF False] obtain e r where
    b: "binary64 x =
       (if overflow_threshold \<le> \<bar>of_int r * 2 powi (e - 52)\<bar>
        then (if 0 < x then PInf else NInf) else Fin (of_int r * 2 powi (e - 52)))"
    by blast
  show ?thesis
    using b assms
    by (cases "overflow_threshold \<le> \<bar>of_int r * 2 powi (e - 52)\<bar>") (auto split: if_splits)
qed

lemma overflow_threshold_powi: "overflow_threshold = 2 powi 1024"
  by (simp add: overflow_threshold_def)

lemma binary64_le_powi:
  assumes "\<bar>x\<bar> \<le> 2 powi k" "k \<le> 1023"
  shows "\<exists>y. binary64 x = Fin y \<and> \<bar>y\<bar> \<le> 2 powi k"
proof (cases "x = 0")
  case True
  then show ?thesis by simp
next
  case False
  then have pos: "0 < \<bar>x\<bar>" by simp
  define L where "L = \<lfloor>log 2 \<bar>x\<bar>\<rfloor>"
  have L: "2 powi L \<le> \<bar>x\<bar>" "\<bar>x\<bar> < 2 powi (L + 1)"
    using floor_log2_powi[OF pos, of L] by (simp_all add: L_def)
  from binary64_shape[OF False] obtain e r where
    e: "e = max L (- 1022)"
    and r: "r = round_half_even (x / 2 powi (e - 52))"
    and b: "binary64 x =
       (if overflow_threshold \<le> \<bar>of_int r * 2 powi (e - 52)\<bar>
        then (if 0 < x then PInf else NInf) else Fin (of_int r * 2 powi (e - 52)))"
    unfolding L_def by blast
  have Lk: "L \<le> k"
  proof (rule ccontr)
    assume "\<not> L \<le> k"
    then have "(2::real) powi (k + 1) \<le> 2 powi L" by (intro power_int_increasing) simp_all
    moreover have "(2::real) powi k < 2 powi (k + 1)" by (intro power_int_strict_increasing) simp_all
    ultimately show False using L(1) assms(1) by linarith
  qed
  have small: "(2::real) powi k < overflow_threshold"
    unfolding overflow_threshold_powi using assms(2) by (intro power_int_strict_increasing) simp_all
  let ?q = "(2::real) powi (e - 52)"
  have q: "0 < ?q" by simp
  have y: "\<bar>of_int r * ?q\<bar> \<le> 2 powi k"
  proof (cases "e - 52 \<le> k")
    case True
    define n where "n = nat (k - (e - 52))"
    have N: "of_int (2 ^ n) * ?q = 2 powi k"
    proof -
      have "(2::real) powi (int n + (e - 52)) = 2 powi int n * 2 powi (e - 52)"
        by (rule power_int_add) simp
      moreover have "int n + (e - 52) = k" using True by (simp add: n_def)
      ultimately show ?thesis by simp
    qed
    have "\<bar>x\<bar> \<le> of_int (2 ^ n) * ?q" using assms(1) by (simp only: N)
    then have "\<bar>x\<bar> / ?q \<le> of_int (2 ^ n)" using q by (simp add: pos_divide_le_eq)
    then have "\<bar>x / ?q\<bar> \<le> of_int (2 ^ n)"
      by (simp only: abs_divide abs_of_pos[OF q])
    then have ub: "x / ?q \<le> of_int (2 ^ n)" and lb0: "- of_int (2 ^ n) \<le> x / ?q"
      by linarith+
    have lb: "of_int (- (2 ^ n)) \<le> x / ?q" using lb0 by (simp only: of_int_minus)
    have "r \<le> 2 ^ n" unfolding r using ub by (rule round_half_even_le)
    moreover have "- (2 ^ n) \<le> r" unfolding r using lb by (rule round_half_even_ge)
    ultimately have "\<bar>r\<bar> \<le> 2 ^ n" by simp
    then have "\<bar>of_int r :: real\<bar> \<le> of_int (2 ^ n)"
      by (metis of_int_abs of_int_le_iff)
    then have "\<bar>of_int r :: real\<bar> * ?q \<le> of_int (2 ^ n) * ?q"
      using q by (intro mult_right_mono) simp_all
    then show ?thesis by (simp only: N abs_mult abs_of_pos[OF q])
  next
    case False
    have e1: "e = - 1022"
    proof (rule ccontr)
      assume "e \<noteq> - 1022"
      then have "e = L" using e by linarith
      then show False using False Lk by linarith
    qed
    then have "k + 1 \<le> - 1074" using False by linarith
    then have "(2::real) powi (k + 1) \<le> 2 powi (- 1074)"
      by (intro power_int_increasing) simp_all
    moreover have "(2::real) powi (k + 1) = 2 * 2 powi k"
      using power_int_add[of "2::real" 1 k] by (simp add: add.commute)
    ultimately have "2 * \<bar>x\<bar> \<le> 2 powi (- 1074)" using assms(1) by linarith
    then have "2 * \<bar>x\<bar> \<le> ?q" by (simp only: e1) simp
    then have "\<bar>x\<bar> / ?q \<le> 1 / 2" using q by (simp add: pos_divide_le_eq)
    then have "\<bar>x / ?q\<bar> \<le> 1 / 2" using q by (simp only: abs_divide abs_of_pos[OF q])
    then have "r = 0" unfolding r by (rule round_half_even_small)
    then show ?thesis by simp
  qed
  then have "\<not> overflow_threshold \<le> \<bar>of_int r * ?q\<bar>" using small by linarith
  then show ?thesis using b y by simp
qed

lemma binary64_exact:
  assumes "\<bar>m\<bar> < 2 ^ 53" "- 1074 \<le> j" "j \<le> 971"
  shows "binary64 (of_int m * 2 powi j) = Fin (of_int m * 2 powi j)"
proof (cases "m = 0")
  case True
  then show ?thesis by simp
next
  case False
  let ?x = "of_int m * (2::real) powi j"
  have nz: "?x \<noteq> 0" using False by simp
  then have pos: "0 < \<bar>?x\<bar>" by simp
  have "\<bar>of_int m :: real\<bar> < of_int (2 ^ 53)"
    using assms(1) by (metis of_int_abs of_int_less_iff)
  then have m53: "\<bar>of_int m :: real\<bar> < 2 powi 53" by simp
  have ax: "\<bar>?x\<bar> = \<bar>of_int m\<bar> * 2 powi j" by (simp add: abs_mult)
  have "\<bar>?x\<bar> < 2 powi 53 * 2 powi j"
    unfolding ax using m53 by (intro mult_strict_right_mono) simp_all
  moreover have "(2::real) powi (53 + j) = 2 powi 53 * 2 powi j"
    by (rule power_int_add) simp
  ultimately have xb: "\<bar>?x\<bar> < 2 powi (53 + j)" by (simp only:)
  define L where "L = \<lfloor>log 2 \<bar>?x\<bar>\<rfloor>"
  have L: "2 powi L \<le> \<bar>?x\<bar>"
    using floor_log2_powi[OF pos, of L] by (simp add: L_def)
  have Lj: "L \<le> 52 + j"
  proof (rule ccontr)
    assume "\<not> L \<le> 52 + j"
    then have "(2::real) powi (53 + j) \<le> 2 powi L" by (intro power_int_increasing) simp_all
    then show False using L xb by linarith
  qed
  from binary64_shape[OF nz] obtain e r where
    e: "e = max L (- 1022)"
    and r: "r = round_half_even (?x / 2 powi (e - 52))"
    and b: "binary64 ?x =
       (if overflow_threshold \<le> \<bar>of_int r * 2 powi (e - 52)\<bar>
        then (if 0 < ?x then PInf else NInf) else Fin (of_int r * 2 powi (e - 52)))"
    unfolding L_def by blast
  have ej: "e - 52 \<le> j" using e Lj assms(2) by linarith
  define n where "n = nat (j - (e - 52))"
  let ?q = "(2::real) powi (e - 52)"
  have q: "0 < ?q" by simp
  have N: "of_int (2 ^ n) * ?q = 2 powi j"
  proof -
    have "(2::real) powi (int n + (e - 52)) = 2 powi int n * 2 powi (e - 52)"
      by (rule power_int_add) simp
    moreover have "int n + (e - 52) = j" using ej by (simp add: n_def)
    ultimately show ?thesis by simp
  qed
  have "?x = of_int m * (of_int (2 ^ n) * ?q)" by (simp only: N)
  then have x: "?x = of_int (m * 2 ^ n) * ?q" by (simp only: of_int_mult mult.assoc)
  then have "?x / ?q = of_int (m * 2 ^ n)" using q by (simp only: nonzero_eq_divide_eq) simp
  then have "r = m * 2 ^ n" unfolding r by (simp only: round_half_even_of_int)
  then have y: "of_int r * ?q = ?x" using x by (simp only:)
  have "(2::real) powi (53 + j) \<le> 2 powi 1024"
    using assms(3) by (intro power_int_increasing) simp_all
  then have "\<bar>?x\<bar> < overflow_threshold"
    unfolding overflow_threshold_powi using xb by linarith
  then show ?thesis using b by (simp only: y) simp
qed

lemma binary64_of_int:
  assumes "\<bar>n\<bar> < 2 ^ 53"
  shows "binary64 (of_int n) = Fin (of_int n)"
  using binary64_exact[OF assms, of 0] by simp

lemma binary64_numeral:
  "(numeral w :: int) < 2 ^ 53 \<Longrightarrow> binary64 (numeral w) = Fin (numeral w)"
  using binary64_of_int[of "numeral w"] by simp

lemma binary64_neg_numeral:
  "(numeral w :: int) < 2 ^ 53 \<Longrightarrow> binary64 (- numeral w) = Fin (- numeral w)"
  using binary64_of_int[of "- numeral w"] by simp

lemma binary64_overflow:
  assumes "overflow_threshold \<le> x"
  shows "binary64 x = PInf"
proof -
  have th: "(2::real) powi 1024 \<le> x" using assms by (simp only: overflow_threshold_powi)
  have "binary64 x = PInf \<or> (\<exists>y. binary64 x = Fin y \<and> 2 powi 1024 \<le> y)"
    by (rule binary64_ge_powi[OF th]) simp
  moreover have "\<bar>y\<bar> < 2 powi 1024" if "binary64 x = Fin y" for y
    using binary64_Fin_bound[OF that] by (simp only: overflow_threshold_powi)
  ultimately show ?thesis by fastforce
qed

section \<open>Properties of the rebalancer\<close>









subsection \<open>In floating-point arithmetic\<close>

lemma step_f_within:
  "\<not> outside_band_f tw tol h \<Longrightarrow> rebalance_step_f tw tv tol tax s h = Inr s"
  by (simp add: rebalance_step_f_def outside_band_f_def diff_pct_f_def target_pct_f_def Let_def)

lemma step_f_outside:
  assumes "outside_band_f tw tol h"
  shows "rebalance_step_f tw tv tol tax s h =
    (case share_quantity_f tw tv h of
       Inl e \<Rightarrow> Inl e
     | Inr q \<Rightarrow>
         if q = 0 then Inr s
         else Inr (s\<lparr>orders_l := orders_l s @ [order_of_f tw tv h],
                    total_buy_l :=
                      (if flt (Fin 0) (diff_value_f tw tv h)
                       then fadd (total_buy_l s) (fmul (int_to_float q) (current_price_f h))
                       else total_buy_l s),
                    total_sell_l :=
                      (if flt (Fin 0) (diff_value_f tw tv h) then total_sell_l s
                       else fadd (total_sell_l s) (fmul (int_to_float q) (current_price_f h))),
                    estimated_tax_l :=
                      (if taxed_f tw tv tax h
                       then fadd (estimated_tax_l s) (tax_of_f tw tv tax h)
                       else estimated_tax_l s)\<rparr>))"
  using assms
  by (auto simp add: rebalance_step_f_def outside_band_f_def diff_pct_f_def target_pct_f_def
      share_quantity_f_def diff_value_f_def target_value_f_def order_of_f_def taxed_f_def
      tax_of_f_def buy_order_f_def sell_order_f_def Let_def
      split: sum.splits)


lemma step_f_Inr_iff:
  "(\<exists>s'. rebalance_step_f tw tv tol tax s h = Inr s') \<longleftrightarrow>
   (outside_band_f tw tol h \<longrightarrow> (\<exists>q. share_quantity_f tw tv h = Inr q))"
proof (cases "outside_band_f tw tol h")
  case True
  then show ?thesis
    by (cases "share_quantity_f tw tv h") (simp_all add: step_f_outside)
next
  case False
  then show ?thesis by (simp add: step_f_within)
qed

lemma step_f_Inl_iff:
  "rebalance_step_f tw tv tol tax s h = Inl e \<longleftrightarrow>
   outside_band_f tw tol h \<and> share_quantity_f tw tv h = Inl e"
proof (cases "outside_band_f tw tol h")
  case True
  then show ?thesis
    by (cases "share_quantity_f tw tv h") (simp_all add: step_f_outside)
next
  case False
  then show ?thesis by (simp add: step_f_within)
qed


lemma loop_f_filter:
  "rebalance_loop_f tw tv tol tax s hs =
   rebalance_loop_f tw tv tol tax s (filter (outside_band_f tw tol) hs)"
  by (induction hs arbitrary: s) (auto simp add: step_f_within split: sum.splits)

lemma loop_f_Inr_iff:
  "(\<exists>s'. rebalance_loop_f tw tv tol tax s hs = Inr s') \<longleftrightarrow>
   (\<forall>h\<in>set hs. outside_band_f tw tol h \<longrightarrow> (\<exists>q. share_quantity_f tw tv h = Inr q))"
proof (induction hs arbitrary: s)
  case Nil
  then show ?case by simp
next
  case (Cons h hs)
  show ?case
  proof (cases "rebalance_step_f tw tv tol tax s h")
    case (Inl e)
    then show ?thesis using step_f_Inl_iff[of tw tv tol tax s h e] by auto
  next
    case (Inr s1)
    then have "outside_band_f tw tol h \<longrightarrow> (\<exists>q. share_quantity_f tw tv h = Inr q)"
      using step_f_Inr_iff[of tw tv tol tax s h] by blast
    then show ?thesis using Inr Cons.IH[of s1] by simp
  qed
qed

lemma loop_f_Inl:
  "rebalance_loop_f tw tv tol tax s hs = Inl e \<Longrightarrow>
   \<exists>h\<in>set hs. outside_band_f tw tol h \<and> share_quantity_f tw tv h = Inl e"
proof (induction hs arbitrary: s)
  case Nil
  then show ?case by simp
next
  case (Cons h hs)
  show ?case
  proof (cases "rebalance_step_f tw tv tol tax s h")
    case (Inl e')
    then show ?thesis using Cons.prems step_f_Inl_iff[of tw tv tol tax s h e'] by auto
  next
    case (Inr s1)
    then show ?thesis using Cons.prems Cons.IH[of s1] by auto
  qed
qed



lemma binary64_value_1: "binary64 (11 / 50) = Fin (7926335344172073 / 36028797018963968)"
  using binary64_eval[of "- 3" "11 / 50" "- 3" 7926335344172073]
  by (simp add: overflow_threshold_def)

lemma binary64_value_2: "binary64 (2 / 5) = Fin (3602879701896397 / 9007199254740992)"
  using binary64_eval[of "- 2" "2 / 5" "- 2" 7205759403792794]
  by (simp add: overflow_threshold_def)

lemma binary64_value_3: "binary64 (3152519739159347375 / 2251799813685248) = Fin 1400"
  using binary64_eval[of 10 "3152519739159347375 / 2251799813685248" 10 6157265115545600]
  by (simp add: overflow_threshold_def)

lemma binary64_value_4: "binary64 (198158383604301825 / 18014398509481984) = Fin 11"
  using binary64_eval[of 3 "198158383604301825 / 18014398509481984" 3 6192449487634432]
  by (simp add: overflow_threshold_def)

lemma binary64_value_5: "binary64 (3 / 5) = Fin (5404319552844595 / 9007199254740992)"
  using binary64_eval[of "- 1" "3 / 5" "- 1" 5404319552844595]
  by (simp add: overflow_threshold_def)

lemma binary64_value_6: "binary64 (4728779608739020625 / 2251799813685248) = Fin 2100"
  using binary64_eval[of 11 "4728779608739020625 / 2251799813685248" 11 4617948836659200]
  by (simp add: overflow_threshold_def)

lemma binary64_value_7: "binary64 (11 / 20) = Fin (2476979795053773 / 4503599627370496)"
  using binary64_eval[of "- 1" "11 / 20" "- 1" 4953959590107546]
  by (simp add: overflow_threshold_def)

lemma binary64_value_8: "binary64 (2167357320672051375 / 1125899906842624) = Fin (8466239533875201 / 4398046511104)"
  using binary64_eval[of 10 "2167357320672051375 / 1125899906842624" 10 8466239533875201]
  by (simp add: overflow_threshold_def)

lemma binary64_value_9: "binary64 (- (1539316278886399 / 4398046511104)) = Fin (- (1539316278886399 / 4398046511104))"
  using binary64_eval[of 8 "- (1539316278886399 / 4398046511104)" 8 "- 6157265115545596"]
  by (simp add: overflow_threshold_def)

lemma binary64_value_10: "binary64 (1539316278886399 / 769658139443200) = Fin (4503599627370493 / 2251799813685248)"
  using binary64_eval[of 0 "1539316278886399 / 769658139443200" 0 9007199254740986]
  by (simp add: overflow_threshold_def)

lemma binary64_value_11: "binary64 (198158383604301825 / 36028797018963968) = Fin (11 / 2)"
  using binary64_eval[of 2 "198158383604301825 / 36028797018963968" 2 6192449487634432]
  by (simp add: overflow_threshold_def)

lemma binary64_value_12: "binary64 (11 / 2) = Fin (11 / 2)"
  using binary64_eval[of 2 "11 / 2" 2 6192449487634432]
  by (simp add: overflow_threshold_def)

lemma binary64_value_13: "binary64 (1 / 2) = Fin (1 / 2)"
  using binary64_eval[of "- 1" "1 / 2" "- 1" 4503599627370496]
  by (simp add: overflow_threshold_def)

lemma binary64_value_14: "binary64 (- (125 / 4)) = Fin (- (125 / 4))"
  using binary64_eval[of 4 "- (125 / 4)" 4 "- 8796093022208000"]
  by (simp add: overflow_threshold_def)

lemmas binary64_values = binary64_value_1 binary64_value_2 binary64_value_3 binary64_value_4 binary64_value_5 binary64_value_6 binary64_value_7 binary64_value_8 binary64_value_9 binary64_value_10 binary64_value_11 binary64_value_12 binary64_value_13 binary64_value_14

lemmas rebalance_f_eval_defs =
  rebalance_f_def rebalance_step_f_def py_truediv_def int_to_float_def fsub_def Let_def
  binary64_1 binary64_numeral binary64_neg_numeral binary64_values

lemma rebalance_f_test_eval:
  "rebalance_f [test_aapl_f, test_msft_f] test_target_weights_f (Fin 3500) (Fin 1)
     (binary64 (22 / 100)) =
     Inr \<lparr>orders_f = [sell_order_f test_aapl_f 2, buy_order_f test_msft_f 1],
       total_buy_cost_f = Fin 350, total_sell_proceeds_f = Fin 350, net_cost_f = Fin 0,
       estimated_tax_f = Fin 11\<rparr>"
  by (simp add: rebalance_f_eval_defs test_aapl_f_def test_msft_f_def test_target_weights_f_def
      sell_order_f_def buy_order_f_def)



lemma rebalance_f_nan_total_eval:
  "rebalance_f [test_aapl_f, test_msft_f] test_target_weights_f NaN (Fin 1) (Fin 0) =
     Inl ValueError"
  by (simp add: rebalance_f_eval_defs test_aapl_f_def test_msft_f_def test_target_weights_f_def)


lemma outside_band_f_expand:
  "outside_band_f tw tol h \<longleftrightarrow> \<not> fle (fabs (fsub (target_pct_f tw h) (weight_pct_f h))) tol"
  by (simp add: outside_band_f_def diff_pct_f_def)

lemma diff_value_f_expand:
  "diff_value_f tw tv h = fsub (fmul tv (fdiv (target_pct_f tw h) (Fin 100))) (market_value_f h)"
  by (simp add: diff_value_f_def target_value_f_def)

lemma share_quantity_f_Inr_iff:
  "share_quantity_f tw tv h = Inr q \<longleftrightarrow>
   current_price_f h \<noteq> Fin 0 \<and>
   (\<exists>r. fdiv (fabs (diff_value_f tw tv h)) (current_price_f h) = Fin r \<and> q = \<lfloor>r\<rfloor>)"
  by (cases "fdiv (fabs (diff_value_f tw tv h)) (current_price_f h)")
     (auto simp add: share_quantity_f_def py_truediv_def)

lemma share_quantity_f_Inl_iff:
  "share_quantity_f tw tv h = Inl e \<longleftrightarrow>
   (e = ZeroDivisionError \<and> current_price_f h = Fin 0)
   \<or> (e = OverflowError \<and> current_price_f h \<noteq> Fin 0 \<and>
       fdiv (fabs (diff_value_f tw tv h)) (current_price_f h) \<in> {PInf, NInf})
   \<or> (e = ValueError \<and> current_price_f h \<noteq> Fin 0 \<and>
       fdiv (fabs (diff_value_f tw tv h)) (current_price_f h) = NaN)"
  by (cases "fdiv (fabs (diff_value_f tw tv h)) (current_price_f h)")
     (auto simp add: share_quantity_f_def py_truediv_def)













lemma quotient_finite:
  assumes "\<bar>t\<bar> \<le> 2 powi 500" "\<bar>w\<bar> \<le> 2 powi 500" "\<bar>m\<bar> \<le> 2 powi 1000"
    and "2 powi (- 20) \<le> \<bar>p\<bar>"
  shows "\<exists>r. fdiv (fabs (fsub (fmul (Fin t) (fdiv (Fin w) (Fin 100))) (Fin m))) (Fin p) = Fin r"
proof -
  have "\<bar>w / 100\<bar> \<le> \<bar>w\<bar>" by simp
  then have "\<bar>w / 100\<bar> \<le> 2 powi 500" using assms(2) by linarith
  from binary64_le_powi[OF this] obtain a where
    a: "binary64 (w / 100) = Fin a" "\<bar>a\<bar> \<le> 2 powi 500" by auto
  have "\<bar>t\<bar> * \<bar>a\<bar> \<le> 2 powi 500 * 2 powi 500"
    using assms(1) a(2) by (intro mult_mono) simp_all
  moreover have "(2::real) powi (500 + 500) = 2 powi 500 * 2 powi 500"
    by (rule power_int_add) simp
  ultimately have "\<bar>t * a\<bar> \<le> 2 powi 1000" by (simp only: abs_mult) simp
  from binary64_le_powi[OF this] obtain b where
    b: "binary64 (t * a) = Fin b" "\<bar>b\<bar> \<le> 2 powi 1000" by auto
  have "(2::real) powi (1 + 1000) = 2 powi 1 * 2 powi 1000"
    by (rule power_int_add) simp
  then have "(2::real) powi 1001 = 2 * 2 powi 1000" by simp
  moreover have "\<bar>b - m\<bar> \<le> \<bar>b\<bar> + \<bar>m\<bar>" by simp
  ultimately have "\<bar>b - m\<bar> \<le> 2 powi 1001" using b(2) assms(3) by linarith
  from binary64_le_powi[OF this] obtain d where
    d: "binary64 (b - m) = Fin d" "\<bar>d\<bar> \<le> 2 powi 1001" by auto
  have p0: "0 < \<bar>p\<bar>" using assms(4) by (smt (verit) zero_less_power_int)
  have "\<bar>d\<bar> \<le> 2 powi 1001" by (rule d(2))
  moreover have "(2::real) powi (1021 + (- 20)) = 2 powi 1021 * 2 powi (- 20)"
    by (rule power_int_add) simp
  then have "(2::real) powi 1001 = 2 powi 1021 * 2 powi (- 20)" by simp
  moreover have "2 powi 1021 * 2 powi (- 20) \<le> 2 powi 1021 * \<bar>p\<bar>"
    using assms(4) by (intro mult_left_mono) simp_all
  ultimately have "\<bar>d\<bar> \<le> 2 powi 1021 * \<bar>p\<bar>" by linarith
  then have "\<bar>d\<bar> / \<bar>p\<bar> \<le> 2 powi 1021" using p0 by (simp add: pos_divide_le_eq)
  then have "\<bar>\<bar>d\<bar> / p\<bar> \<le> 2 powi 1021" by (simp only: abs_divide abs_abs)
  from binary64_le_powi[OF this] obtain r where
    r: "binary64 (\<bar>d\<bar> / p) = Fin r" by auto
  have "p \<noteq> 0" using p0 by simp
  then show ?thesis using a b d r by (simp add: fsub_def)
qed

text \<open>
  Claim C10. \<open>rebalance\<close> returns if and only if every holding outside its band has a
  price other than 0 and a finite quotient \<open>abs(diff_value) / current_price\<close>. The code has
  no guard on the price or on the quotient: \<open>ZeroDivisionError\<close> is raised only at a holding
  outside its band whose price is 0, \<open>OverflowError\<close> only where the quotient is an infinity
  and \<open>ValueError\<close> only where it is NaN, both with a price other than 0. A positive price
  therefore excludes the first error and not the other two. \<open>rebalance\<close> does return when
  \<open>total_value\<close> is finite of magnitude at most \<open>2 ^ 500\<close> and every holding outside its band
  has a finite target percent of magnitude at most \<open>2 ^ 500\<close>, a finite market value of
  magnitude at most \<open>2 ^ 1000\<close> and a finite price of magnitude at least \<open>2 ^ - 20\<close>.
\<close>

theorem rebalance_f_returns_iff_quotients_finite:
  "((\<exists>res. rebalance_f hs tw tv tol tax_rate = Inr res) \<longleftrightarrow>
      (\<forall>h\<in>set hs.
         \<not> fle (fabs (fsub (target_pct_f tw h) (weight_pct_f h))) tol \<longrightarrow>
         current_price_f h \<noteq> Fin 0 \<and>
         (\<exists>r. fdiv (fabs (fsub (fmul tv (fdiv (target_pct_f tw h) (Fin 100)))
                               (market_value_f h)))
                   (current_price_f h) = Fin r)))
   \<and> (rebalance_f hs tw tv tol tax_rate = Inl ZeroDivisionError \<longrightarrow>
        (\<exists>h\<in>set hs. \<not> fle (fabs (fsub (target_pct_f tw h) (weight_pct_f h))) tol
            \<and> current_price_f h = Fin 0))
   \<and> (rebalance_f hs tw tv tol tax_rate = Inl OverflowError \<longrightarrow>
        (\<exists>h\<in>set hs. \<not> fle (fabs (fsub (target_pct_f tw h) (weight_pct_f h))) tol
            \<and> current_price_f h \<noteq> Fin 0
            \<and> fdiv (fabs (fsub (fmul tv (fdiv (target_pct_f tw h) (Fin 100)))
                              (market_value_f h)))
                  (current_price_f h) \<in> {PInf, NInf}))
   \<and> (rebalance_f hs tw tv tol tax_rate = Inl ValueError \<longrightarrow>
        (\<exists>h\<in>set hs. \<not> fle (fabs (fsub (target_pct_f tw h) (weight_pct_f h))) tol
            \<and> current_price_f h \<noteq> Fin 0
            \<and> fdiv (fabs (fsub (fmul tv (fdiv (target_pct_f tw h) (Fin 100)))
                              (market_value_f h)))
                  (current_price_f h) = NaN))
   \<and> ((\<exists>t. tv = Fin t \<and> \<bar>t\<bar> \<le> 2 powi 500) \<and>
       (\<forall>h\<in>set hs.
          \<not> fle (fabs (fsub (target_pct_f tw h) (weight_pct_f h))) tol \<longrightarrow>
          (\<exists>w m p. target_pct_f tw h = Fin w \<and> \<bar>w\<bar> \<le> 2 powi 500
                 \<and> market_value_f h = Fin m \<and> \<bar>m\<bar> \<le> 2 powi 1000
                 \<and> current_price_f h = Fin p \<and> 2 powi (- 20) \<le> \<bar>p\<bar>)) \<longrightarrow>
       (\<exists>res. rebalance_f hs tw tv tol tax_rate = Inr res))"
proof -
  let ?init = "\<lparr>orders_l = [], total_buy_l = Fin 0, total_sell_l = Fin 0,
                estimated_tax_l = Fin 0\<rparr>"
  let ?out = "\<lambda>h. \<not> fle (fabs (fsub (target_pct_f tw h) (weight_pct_f h))) tol"
  let ?quo = "\<lambda>h. fdiv (fabs (fsub (fmul tv (fdiv (target_pct_f tw h) (Fin 100)))
                               (market_value_f h)))
                   (current_price_f h)"
  have ret: "(\<exists>res. rebalance_f hs tw tv tol tax_rate = Inr res) \<longleftrightarrow>
             (\<exists>s. rebalance_loop_f tw tv tol tax_rate ?init hs = Inr s)"
    by (cases "rebalance_loop_f tw tv tol tax_rate ?init hs") (simp_all add: rebalance_f_def)
  have err: "rebalance_f hs tw tv tol tax_rate = Inl e \<longleftrightarrow>
             rebalance_loop_f tw tv tol tax_rate ?init hs = Inl e" for e
    by (cases "rebalance_loop_f tw tv tol tax_rate ?init hs") (simp_all add: rebalance_f_def)
  have A: "(\<exists>res. rebalance_f hs tw tv tol tax_rate = Inr res) \<longleftrightarrow>
      (\<forall>h\<in>set hs. ?out h \<longrightarrow> current_price_f h \<noteq> Fin 0 \<and> (\<exists>r. ?quo h = Fin r))"
    unfolding ret loop_f_Inr_iff
    by (simp add: share_quantity_f_Inr_iff outside_band_f_expand diff_value_f_expand)
  have raise: "\<exists>h\<in>set hs. ?out h \<and> share_quantity_f tw tv h = Inl e"
    if "rebalance_f hs tw tv tol tax_rate = Inl e" for e
    using loop_f_Inl[of tw tv tol tax_rate ?init hs e] that
    by (simp add: err outside_band_f_expand)
  have B: "\<exists>h\<in>set hs. ?out h \<and> current_price_f h = Fin 0"
    if "rebalance_f hs tw tv tol tax_rate = Inl ZeroDivisionError"
    using raise[OF that] by (auto simp add: share_quantity_f_Inl_iff)
  have C: "\<exists>h\<in>set hs. ?out h \<and> current_price_f h \<noteq> Fin 0 \<and> ?quo h \<in> {PInf, NInf}"
    if "rebalance_f hs tw tv tol tax_rate = Inl OverflowError"
    using raise[OF that] by (auto simp add: share_quantity_f_Inl_iff diff_value_f_expand)
  have D: "\<exists>h\<in>set hs. ?out h \<and> current_price_f h \<noteq> Fin 0 \<and> ?quo h = NaN"
    if "rebalance_f hs tw tv tol tax_rate = Inl ValueError"
    using raise[OF that] by (auto simp add: share_quantity_f_Inl_iff diff_value_f_expand)
  have E: "\<exists>res. rebalance_f hs tw tv tol tax_rate = Inr res"
    if tv: "\<exists>t. tv = Fin t \<and> \<bar>t\<bar> \<le> 2 powi 500"
      and hs: "\<forall>h\<in>set hs. ?out h \<longrightarrow>
          (\<exists>w m p. target_pct_f tw h = Fin w \<and> \<bar>w\<bar> \<le> 2 powi 500
                 \<and> market_value_f h = Fin m \<and> \<bar>m\<bar> \<le> 2 powi 1000
                 \<and> current_price_f h = Fin p \<and> 2 powi (- 20) \<le> \<bar>p\<bar>)"
    unfolding A
  proof (intro ballI impI)
    fix h assume h: "h \<in> set hs" "?out h"
    from tv obtain t where t: "tv = Fin t" "\<bar>t\<bar> \<le> 2 powi 500" by blast
    from hs h obtain w m p where
      w: "target_pct_f tw h = Fin w" "\<bar>w\<bar> \<le> 2 powi 500"
      and m: "market_value_f h = Fin m" "\<bar>m\<bar> \<le> 2 powi 1000"
      and p: "current_price_f h = Fin p" "2 powi (- 20) \<le> \<bar>p\<bar>"
      by blast
    have "0 < \<bar>p\<bar>" using p(2) by (smt (verit) zero_less_power_int)
    then have "current_price_f h \<noteq> Fin 0" using p(1) by auto
    moreover have "\<exists>r. ?quo h = Fin r"
      using quotient_finite[OF t(2) w(2) m(2) p(2)] by (simp only: t(1) w(1) m(1) p(1))
    ultimately show "current_price_f h \<noteq> Fin 0 \<and> (\<exists>r. ?quo h = Fin r)" by blast
  qed
  show ?thesis using A B C D E by blast
qed


theorem rebalance_f_returns_iff_quotients_finite_witness:
  "\<exists>res. rebalance_f [test_aapl_f, test_msft_f] test_target_weights_f (Fin 3500) (Fin 1)
          (binary64 (22 / 100)) = Inr res"
  using rebalance_f_returns_iff_quotients_finite
    [of "[test_aapl_f, test_msft_f]" test_target_weights_f "Fin 3500" "Fin 1" "binary64 (22 / 100)",
     THEN conjunct2, THEN conjunct2, THEN conjunct2, THEN conjunct2]
  by (simp add: target_pct_f_def test_aapl_f_def test_msft_f_def test_target_weights_f_def)

theorem rebalance_f_positive_prices_counterexample:
  "flt (Fin 0) (current_price_f test_aapl_f) \<and> flt (Fin 0) (current_price_f test_msft_f)
   \<and> rebalance_f [test_aapl_f, test_msft_f] test_target_weights_f NaN (Fin 1) (Fin 0) =
       Inl ValueError"
  using rebalance_f_nan_total_eval by (simp add: test_aapl_f_def test_msft_f_def)

lemma rebalance_f_overflow_eval:
  "rebalance_f [test_aapl_f\<lparr>current_price_f := Fin min_subnormal\<rparr>, test_msft_f]
     test_target_weights_f (Fin 3500) (Fin 1) (Fin 0) = Inl OverflowError"
proof -
  have "overflow_threshold \<le> 350 / min_subnormal"
    by (simp add: overflow_threshold_def min_subnormal_def)
  then have "binary64 (350 / min_subnormal) = PInf" by (rule binary64_overflow)
  moreover have "min_subnormal \<noteq> 0" using min_subnormal_pos by simp
  ultimately show ?thesis
    by (simp add: rebalance_f_eval_defs test_aapl_f_def test_msft_f_def test_target_weights_f_def)
qed

section \<open>Properties of the metrics library\<close>

text \<open>
  Claim C7. \<open>total_return(initial, final)\<close> returns \<open>(final - initial) / initial * 100\<close>
  whenever \<open>initial > 0\<close>; it raises exactly when \<open>initial \<le> 0\<close>, and what it raises is
  \<open>ValueError\<close>. \<open>total_return(100, 120)\<close> is 20, \<open>total_return(100, 80)\<close> is -20, and
  \<open>total_return(0, x)\<close> raises for every \<open>x\<close>.
\<close>

theorem total_return_domain:
  "(0 < initial \<longrightarrow> total_return initial final = Inr ((final - initial) / initial * 100))
   \<and> (total_return initial final = Inl ValueError \<longleftrightarrow> initial \<le> 0)
   \<and> (\<forall>e. total_return initial final = Inl e \<longleftrightarrow> e = ValueError \<and> initial \<le> 0)
   \<and> total_return 100 120 = Inr 20
   \<and> total_return 100 80 = Inr (- 20)
   \<and> total_return 0 x = Inl ValueError"
  by (auto simp add: total_return_def)

theorem total_return_domain_witness:
  "total_return 100 100 = Inr 0 \<and> total_return (- 5) 7 = Inl ValueError"
  using total_return_domain [of 100 100] total_return_domain [of "- 5" 7]
  by simp


lemma series_std_Some:
  "2 \<le> length r \<Longrightarrow> \<exists>s. series_std r = Some s"
  by (simp add: series_std_def)

text \<open>
  Claim C8, as amended. For every return series with at least two observations both
  calls of \<open>volatility\<close> return a number, and the annualized one is the other times
  \<open>sqrt 252\<close> (exactly, in real arithmetic). For a series of one observation both calls
  return NaN. The volatility of an empty series is 0.
\<close>

theorem volatility_annualization:
  "(2 \<le> length r \<longrightarrow>
      (\<exists>s. volatility r False = Some s \<and> volatility r True = Some (s * sqrt 252)))
   \<and> (length r = 1 \<longrightarrow> volatility r False = None \<and> volatility r True = None)
   \<and> volatility [] annualize = Some 0"
proof -
  have A: "\<exists>s. volatility r False = Some s \<and> volatility r True = Some (s * sqrt 252)"
    if "2 \<le> length r"
  proof -
    from that obtain s where "series_std r = Some s" using series_std_Some by blast
    moreover from that have "r \<noteq> []" by auto
    ultimately show ?thesis by (simp add: volatility_def)
  qed
  have B: "volatility r False = None \<and> volatility r True = None" if "length r = 1"
  proof -
    from that have "r \<noteq> []" by auto
    moreover from that have "series_std r = None" by (simp add: series_std_def)
    ultimately show ?thesis by (simp add: volatility_def)
  qed
  have C: "volatility [] annualize = Some 0" by (simp add: volatility_def)
  show ?thesis using A B C by blast
qed

theorem volatility_annualization_witness:
  "(\<exists>s. volatility [1 / 100, 3 / 100] False = Some s
        \<and> volatility [1 / 100, 3 / 100] True = Some (s * sqrt 252))
   \<and> volatility [1 / 100] False = None \<and> volatility [1 / 100] True = None"
  using volatility_annualization [of "[1 / 100, 3 / 100]"] volatility_annualization [of "[1 / 100]"]
  by simp

text \<open>
  Claim C8 as stated fails on the non-empty series of the one return 0.01: the sample
  standard deviation of a single observation is NaN, so both calls return NaN, and a NaN
  is not equal to anything within any tolerance.
\<close>

theorem volatility_single_observation_counterexample:
  "[1 / 100] \<noteq> ([] :: real list) \<and>
   \<not> float_close (volatility [1 / 100] True)
       (map_option (\<lambda>v. v * sqrt 252) (volatility [1 / 100] False)) (1 / 10000)"
  by (simp add: float_close_def volatility_def series_std_def)









section \<open>Properties of the analyzer\<close>

lemma gather_loop_filter:
  "gather_loop market (filter (resolvable market) hs) = gather_loop market hs"
  by (induction hs) (auto simp add: resolvable_def split: option.splits)

lemma gather_loop_tickers:
  "map HoldingData.ticker (gather_loop market hs) =
   map Holding.ticker (filter (resolvable market) hs)"
  by (induction hs) (auto simp add: resolvable_def split: option.splits)

lemma gather_loop_length: "length (gather_loop market hs) \<le> length hs"
  by (induction hs) (auto split: option.splits)

lemma gather_loop_Nil:
  "gather_loop market hs = [] \<longleftrightarrow> (\<forall>h\<in>set hs. \<not> resolvable market h)"
  by (induction hs) (auto simp add: resolvable_def split: option.splits)

lemma gather_loop_cost:
  "sum_list (map (\<lambda>h. HoldingData.avg_cost h * HoldingData.quantity h) (gather_loop market hs)) =
   sum_list (map (\<lambda>h. Holding.avg_cost h * Holding.quantity h) (filter (resolvable market) hs))"
  by (induction hs) (auto simp add: resolvable_def split: option.splits)

lemma build_Inr:
  "build_holdings_analysis tv ds = Inr has \<Longrightarrow>
   list_all2 (\<lambda>h a. holding_analysis_of tv h = Inr a) ds has"
  by (induction ds arbitrary: has) (auto split: sum.splits)

lemma build_fields:
  assumes "build_holdings_analysis tv ds = Inr has"
  shows "map HoldingAnalysis.ticker has = map HoldingData.ticker ds"
    and "map HoldingAnalysis.market_value has = map HoldingData.market_value ds"
    and "map weight_pct has =
         map (\<lambda>h. if tv > 0 then HoldingData.market_value h / tv * 100 else 0) ds"
    and "length has = length ds"
proof -
  have L: "list_all2 (\<lambda>h a. holding_analysis_of tv h = Inr a) ds has"
    using build_Inr[OF assms] .
  show "map HoldingAnalysis.ticker has = map HoldingData.ticker ds"
    using L by (induction rule: list_all2_induct)
      (auto simp add: holding_analysis_of_def split: if_splits)
  show "map HoldingAnalysis.market_value has = map HoldingData.market_value ds"
    using L by (induction rule: list_all2_induct)
      (auto simp add: holding_analysis_of_def split: if_splits)
  show "map weight_pct has =
         map (\<lambda>h. if tv > 0 then HoldingData.market_value h / tv * 100 else 0) ds"
    using L by (induction rule: list_all2_induct)
      (auto simp add: holding_analysis_of_def split: if_splits)
  show "length has = length ds"
    using L by (rule list_all2_lengthD[symmetric])
qed

lemma analyze_Inr:
  assumes "analyze market portfolio benchmark = Inr r"
  shows "(gather_holdings_data market portfolio = [] \<and> r = empty_result portfolio benchmark)
     \<or> (gather_holdings_data market portfolio \<noteq> [] \<and>
         build_holdings_analysis
           (sum_list (map HoldingData.market_value (gather_holdings_data market portfolio)))
           (gather_holdings_data market portfolio) = Inr (holdings_analysis r) \<and>
         total_value r = sum_list (map HoldingData.market_value (gather_holdings_data market portfolio)) \<and>
         total_cost r = sum_list (map (\<lambda>h. HoldingData.avg_cost h * HoldingData.quantity h)
                                     (gather_holdings_data market portfolio)))"
  using assms
  by (auto simp add: analyze_def Let_def split: if_splits sum.splits)

lemma sum_list_scaled:
  "sum_list (map (\<lambda>h. f h / tv * 100) xs) = sum_list (map f xs) / tv * (100::real)"
  by (induction xs) (simp_all add: add_divide_distrib distrib_right)

lemma sum_list_weights:
  assumes "tv = sum_list (map f xs)" "0 < (tv::real)"
  shows "sum_list (map (\<lambda>h. f h / tv * 100) xs) = 100"
proof -
  have "sum_list (map (\<lambda>h. f h / tv * 100) xs) = tv / tv * 100"
    unfolding sum_list_scaled using assms(1) by simp
  then show ?thesis using assms(2) by simp
qed

text \<open>
  Claim C4. Whenever \<open>analyze\<close> returns a result with \<open>total_value > 0\<close>, the \<open>weight_pct\<close>
  of its holdings sum to 100 (exactly, in real arithmetic, hence within 0.1). Each
  \<open>weight_pct\<close> is \<open>market_value / total_value * 100\<close> when \<open>total_value > 0\<close> and 0
  otherwise, in particular when \<open>total_value\<close> is 0; \<open>total_value\<close> is the sum of the
  market values of the holdings of the result.
\<close>

theorem analyze_weights_sum:
  assumes "analyze market portfolio benchmark = Inr r"
  shows "(0 < total_value r \<longrightarrow>
            sum_list (map weight_pct (holdings_analysis r)) = 100
            \<and> \<bar>sum_list (map weight_pct (holdings_analysis r)) - 100\<bar> \<le> 1 / 10)
     \<and> (\<forall>h\<in>set (holdings_analysis r).
            weight_pct h =
              (if 0 < total_value r then HoldingAnalysis.market_value h / total_value r * 100 else 0))
     \<and> (total_value r = 0 \<longrightarrow> (\<forall>h\<in>set (holdings_analysis r). weight_pct h = 0))
     \<and> total_value r = sum_list (map HoldingAnalysis.market_value (holdings_analysis r))"
proof -
  let ?hd = "gather_holdings_data market portfolio"
  let ?tv = "sum_list (map HoldingData.market_value ?hd)"
  from analyze_Inr[OF assms] consider
    (empty) "?hd = []" "r = empty_result portfolio benchmark"
  | (normal) "?hd \<noteq> []" "build_holdings_analysis ?tv ?hd = Inr (holdings_analysis r)"
      "total_value r = ?tv"
    by blast
  then show ?thesis
  proof cases
    case empty
    then show ?thesis by (simp add: empty_result_def)
  next
    case normal
    note F = build_fields[OF normal(2)]
    have tv: "total_value r = sum_list (map HoldingAnalysis.market_value (holdings_analysis r))"
      using normal(3) F(2) by simp
    have L: "list_all2 (\<lambda>h a. holding_analysis_of ?tv h = Inr a) ?hd (holdings_analysis r)"
      using build_Inr[OF normal(2)] .
    have each: "weight_pct a =
        (if 0 < total_value r then HoldingAnalysis.market_value a / total_value r * 100 else 0)"
      if "a \<in> set (holdings_analysis r)" for a
    proof -
      from that L obtain h where "holding_analysis_of ?tv h = Inr a"
        by (auto simp add: list_all2_conv_all_nth in_set_conv_nth)
      then show ?thesis using normal(3)
        by (auto simp add: holding_analysis_of_def split: if_splits)
    qed
    have sum: "sum_list (map weight_pct (holdings_analysis r)) = 100" if "0 < total_value r"
    proof -
      have "map weight_pct (holdings_analysis r) =
            map (\<lambda>h. HoldingData.market_value h / ?tv * 100) ?hd"
        using F(3) that normal(3) by simp
      then show ?thesis
        using sum_list_weights[of ?tv HoldingData.market_value ?hd] that normal(3) by simp
    qed
    show ?thesis using tv each sum by auto
  qed
qed

lemmas analyze_eval_defs =
  analyze_def gather_holdings_data_def holding_analysis_of_def compute_portfolio_returns_def
  all_prices_of_def price_weights_def frame_dropna_def frame_empty_def pct_change_dropna_def
  frame_dot_def get_benchmark_returns_def total_return_def annualized_return_def float_pow_def
  volatility_def sharpe_ratio_def series_std_def series_mean_def compute_max_drawdown_def
  max_drawdown_def cummax_def series_min_def beta_def np_cov_def cov_sum_def
  compute_benchmark_total_return_def alpha_def empty_result_def Portfolio_total_cost_def
  Holding_total_cost_def Let_def

lemma test_analyze_eval:
  "analyze test_market test_portfolio ''SPY'' =
     Inr \<lparr>portfolio_name = ''Test Portfolio'', total_value = 3500, total_cost = 3000,
       total_return_pct = 50 / 3, annualized_return_pct = 50 / 3, volatility_pct = Some 0,
       AnalysisResult.sharpe_ratio = Some 0, max_drawdown_pct = 0, AnalysisResult.beta = Some 0,
       alpha_pct = Some (2497 / 150), AnalysisResult.currency = ''USD'',
       holdings_analysis =
         [\<lparr>HoldingAnalysis.ticker = ''AAPL'', HoldingAnalysis.name = ''Apple Inc.'',
           HoldingAnalysis.quantity = 10, HoldingAnalysis.avg_cost = 150,
           HoldingAnalysis.current_price = 175, HoldingAnalysis.market_value = 1750,
           weight_pct = 50, return_pct = 50 / 3, HoldingAnalysis.sector = ''Technology''\<rparr>,
          \<lparr>HoldingAnalysis.ticker = ''MSFT'', HoldingAnalysis.name = ''Microsoft Corp.'',
           HoldingAnalysis.quantity = 5, HoldingAnalysis.avg_cost = 300,
           HoldingAnalysis.current_price = 350, HoldingAnalysis.market_value = 1750,
           weight_pct = 50, return_pct = 50 / 3, HoldingAnalysis.sector = ''Technology''\<rparr>],
       benchmark_ticker = ''SPY'', ai_insights = None\<rparr>"
  by (simp add: analyze_eval_defs test_market_def test_portfolio_def)

lemma partial_analyze_eval:
  "analyze partial_market partial_portfolio ''SPY'' =
     Inr \<lparr>portfolio_name = ''Test'', total_value = 1750, total_cost = 1500,
       total_return_pct = 50 / 3, annualized_return_pct = 50 / 3, volatility_pct = None,
       AnalysisResult.sharpe_ratio = None, max_drawdown_pct = 0, AnalysisResult.beta = Some 0,
       alpha_pct = Some (2497 / 150), AnalysisResult.currency = ''USD'',
       holdings_analysis =
         [\<lparr>HoldingAnalysis.ticker = ''AAPL'', HoldingAnalysis.name = ''Apple Inc.'',
           HoldingAnalysis.quantity = 10, HoldingAnalysis.avg_cost = 150,
           HoldingAnalysis.current_price = 175, HoldingAnalysis.market_value = 1750,
           weight_pct = 100, return_pct = 50 / 3, HoldingAnalysis.sector = ''Technology''\<rparr>],
       benchmark_ticker = ''SPY'', ai_insights = None\<rparr>"
  by (simp add: analyze_eval_defs partial_market_def partial_portfolio_def)

theorem analyze_weights_sum_witness:
  "\<exists>r. analyze test_market test_portfolio ''SPY'' = Inr r \<and> 0 < total_value r
       \<and> sum_list (map weight_pct (holdings_analysis r)) = 100
       \<and> map weight_pct (holdings_analysis r) = [50, 50]"
  using analyze_weights_sum [OF test_analyze_eval] test_analyze_eval
  by simp

text \<open>
  Claim C5. When no holding of the portfolio is resolvable, \<open>analyze\<close> returns the
  degenerate result: every metric 0, \<open>total_value\<close> 0, no holdings, and as \<open>total_cost\<close>
  the cost basis of all the holdings of the portfolio. When some holding is resolvable,
  the unresolvable ones do not change the outcome: \<open>analyze\<close> gives what it gives on the
  portfolio of the resolvable holdings alone. Whenever \<open>analyze\<close> returns, the holdings of
  the result are those of the resolvable holdings, in order, so they are no more than
  the holdings of the portfolio, and on the normal path \<open>total_cost\<close> sums
  \<open>avg_cost * quantity\<close> over the resolvable holdings only.
\<close>

theorem analyze_unresolvable_prices:
  "((\<forall>h\<in>set (holdings portfolio). \<not> resolvable market h) \<longrightarrow>
      analyze market portfolio benchmark =
        Inr \<lparr>portfolio_name = Portfolio.name portfolio, total_value = 0,
             total_cost = sum_list (map (\<lambda>h. Holding.quantity h * Holding.avg_cost h)
                                      (holdings portfolio)),
             total_return_pct = 0, annualized_return_pct = 0, volatility_pct = Some 0,
             AnalysisResult.sharpe_ratio = Some 0, max_drawdown_pct = 0,
             AnalysisResult.beta = Some 0, alpha_pct = Some 0,
             AnalysisResult.currency = Portfolio.currency portfolio,
             holdings_analysis = [], benchmark_ticker = benchmark, ai_insights = None\<rparr>)
   \<and> ((\<exists>h\<in>set (holdings portfolio). resolvable market h) \<longrightarrow>
        analyze market portfolio benchmark =
        analyze market (portfolio\<lparr>holdings := filter (resolvable market) (holdings portfolio)\<rparr>)
          benchmark)
   \<and> (\<forall>r. analyze market portfolio benchmark = Inr r \<longrightarrow>
        map HoldingAnalysis.ticker (holdings_analysis r) =
          map Holding.ticker (filter (resolvable market) (holdings portfolio))
        \<and> length (holdings_analysis r) \<le> length (holdings portfolio)
        \<and> ((\<exists>h\<in>set (holdings portfolio). resolvable market h) \<longrightarrow>
             total_cost r = sum_list (map (\<lambda>h. Holding.avg_cost h * Holding.quantity h)
                                       (filter (resolvable market) (holdings portfolio)))))"
proof -
  let ?hs = "holdings portfolio"
  let ?p' = "portfolio\<lparr>holdings := filter (resolvable market) ?hs\<rparr>"
  have A: "analyze market portfolio benchmark = Inr (empty_result portfolio benchmark)"
    if "\<forall>h\<in>set ?hs. \<not> resolvable market h"
    using that gather_loop_Nil[of market ?hs]
    by (simp add: analyze_def gather_holdings_data_def)
  have A': "empty_result portfolio benchmark =
        \<lparr>portfolio_name = Portfolio.name portfolio, total_value = 0,
             total_cost = sum_list (map (\<lambda>h. Holding.quantity h * Holding.avg_cost h) ?hs),
             total_return_pct = 0, annualized_return_pct = 0, volatility_pct = Some 0,
             AnalysisResult.sharpe_ratio = Some 0, max_drawdown_pct = 0,
             AnalysisResult.beta = Some 0, alpha_pct = Some 0,
             AnalysisResult.currency = Portfolio.currency portfolio,
             holdings_analysis = [], benchmark_ticker = benchmark, ai_insights = None\<rparr>"
    by (simp add: empty_result_def Portfolio_total_cost_def Holding_total_cost_def [abs_def])
  have g: "gather_holdings_data market ?p' = gather_holdings_data market portfolio"
    by (simp add: gather_holdings_data_def gather_loop_filter)
  have B: "analyze market portfolio benchmark = analyze market ?p' benchmark"
    if "\<exists>h\<in>set ?hs. resolvable market h"
  proof -
    from that have "gather_holdings_data market portfolio \<noteq> []"
      using gather_loop_Nil[of market ?hs] by (simp add: gather_holdings_data_def)
    moreover have "compute_portfolio_returns market has ?p' =
        compute_portfolio_returns market has portfolio" for has
      by (simp add: compute_portfolio_returns_def)
    moreover have "compute_max_drawdown market has ?p' =
        compute_max_drawdown market has portfolio" for has
      by (simp add: compute_max_drawdown_def)
    ultimately show ?thesis
      unfolding analyze_def g by (simp add: Let_def cong: sum.case_cong)
  qed
  have C: "map HoldingAnalysis.ticker (holdings_analysis r) =
          map Holding.ticker (filter (resolvable market) ?hs)
        \<and> length (holdings_analysis r) \<le> length ?hs
        \<and> ((\<exists>h\<in>set ?hs. resolvable market h) \<longrightarrow>
             total_cost r = sum_list (map (\<lambda>h. Holding.avg_cost h * Holding.quantity h)
                                       (filter (resolvable market) ?hs)))"
    if r: "analyze market portfolio benchmark = Inr r" for r
  proof -
    let ?ds = "gather_holdings_data market portfolio"
    from analyze_Inr[OF r] consider
      (empty) "?ds = []" "r = empty_result portfolio benchmark"
    | (normal) "?ds \<noteq> []"
        "build_holdings_analysis (sum_list (map HoldingData.market_value ?ds)) ?ds
           = Inr (holdings_analysis r)"
        "total_cost r = sum_list (map (\<lambda>h. HoldingData.avg_cost h * HoldingData.quantity h) ?ds)"
      by blast
    then show ?thesis
    proof cases
      case empty
      from empty(1) have none: "\<forall>h\<in>set ?hs. \<not> resolvable market h"
        using gather_loop_Nil[of market ?hs] by (simp add: gather_holdings_data_def)
      then have "filter (resolvable market) ?hs = []" by (simp add: filter_empty_conv)
      then show ?thesis using empty(2) none by (simp add: empty_result_def)
    next
      case normal
      note F = build_fields[OF normal(2)]
      have 1: "map HoldingAnalysis.ticker (holdings_analysis r) =
          map Holding.ticker (filter (resolvable market) ?hs)"
        using F(1) gather_loop_tickers[of market ?hs] by (simp add: gather_holdings_data_def)
      have 2: "length (holdings_analysis r) \<le> length ?hs"
        using F(4) gather_loop_length[of market ?hs] by (simp add: gather_holdings_data_def)
      have 3: "total_cost r = sum_list (map (\<lambda>h. Holding.avg_cost h * Holding.quantity h)
                                       (filter (resolvable market) ?hs))"
        using normal(3) gather_loop_cost[of market ?hs] by (simp add: gather_holdings_data_def)
      show ?thesis using 1 2 3 by simp
    qed
  qed
  show ?thesis using A A' B C by (intro conjI allI impI) simp_all
qed

theorem analyze_unresolvable_prices_witness:
  "analyze (partial_market\<lparr>get_current_price := Map.empty\<rparr>) partial_portfolio ''SPY'' =
     Inr \<lparr>portfolio_name = ''Test'', total_value = 0, total_cost = 2000,
       total_return_pct = 0, annualized_return_pct = 0, volatility_pct = Some 0,
       AnalysisResult.sharpe_ratio = Some 0, max_drawdown_pct = 0, AnalysisResult.beta = Some 0,
       alpha_pct = Some 0, AnalysisResult.currency = ''USD'', holdings_analysis = [],
       benchmark_ticker = ''SPY'', ai_insights = None\<rparr>
   \<and> (\<exists>r. analyze partial_market partial_portfolio ''SPY'' = Inr r
          \<and> map HoldingAnalysis.ticker (holdings_analysis r) = [''AAPL'']
          \<and> total_cost r = 1500)"
proof -
  have 1: "analyze (partial_market\<lparr>get_current_price := Map.empty\<rparr>) partial_portfolio ''SPY'' =
     Inr \<lparr>portfolio_name = ''Test'', total_value = 0, total_cost = 2000,
       total_return_pct = 0, annualized_return_pct = 0, volatility_pct = Some 0,
       AnalysisResult.sharpe_ratio = Some 0, max_drawdown_pct = 0, AnalysisResult.beta = Some 0,
       alpha_pct = Some 0, AnalysisResult.currency = ''USD'', holdings_analysis = [],
       benchmark_ticker = ''SPY'', ai_insights = None\<rparr>"
    using analyze_unresolvable_prices
      [of partial_portfolio "partial_market\<lparr>get_current_price := Map.empty\<rparr>" "''SPY''",
       THEN conjunct1]
    by (simp add: resolvable_def partial_portfolio_def partial_market_def)
  have 2: "map HoldingAnalysis.ticker (holdings_analysis r) = [''AAPL''] \<and> total_cost r = 1500"
    if "analyze partial_market partial_portfolio ''SPY'' = Inr r" for r
    using analyze_unresolvable_prices
      [of partial_portfolio partial_market "''SPY''", THEN conjunct2, THEN conjunct2,
       THEN spec, THEN mp, OF that]
    by (simp add: resolvable_def partial_portfolio_def partial_market_def)
  show ?thesis using 1 2[OF partial_analyze_eval] partial_analyze_eval by simp
qed

text \<open>
  Claim C6 says that \<open>analyze\<close> never raises when data is only missing or partial. On the
  portfolio that holds AAPL in two lots and the unknown FAKE, with a two-day price
  history for AAPL and none for the benchmark, \<open>analyze\<close> raises \<open>ValueError\<close>: the dict
  \<open>all_prices\<close> has one column for AAPL, the weight vector has one entry for each lot, and
  \<open>DataFrame.dot\<close> refuses the shapes. The lemmas after it delimit the defect: the
  benchmark total return calls \<open>total_return\<close> only on a series of at least two prices,
  and \<open>analyze\<close> returns for every portfolio of holdings with positive quantity and cost
  and pairwise distinct tickers, whatever prices and histories are missing, provided the
  first price of a benchmark series of two or more is positive.
\<close>

theorem analyze_raises_on_repeated_ticker:
  "analyze partial_market two_lots_portfolio ''SPY'' = Inl ValueError"
  by (simp add: analyze_eval_defs partial_market_def two_lots_portfolio_def)

lemma update_fresh:
  "k \<notin> fst ` set al \<Longrightarrow> AList.update k v al = al @ [(k, v)]"
  by (induction al) auto

lemma fold_prices_distinct:
  assumes "distinct (map HoldingAnalysis.ticker has)"
    and "set (map HoldingAnalysis.ticker has) \<inter> fst ` set acc = {}"
  shows "fold (\<lambda>h all_prices.
             let prices = get_historical_prices market (HoldingAnalysis.ticker h)
             in if prices \<noteq> [] then AList.update (HoldingAnalysis.ticker h) prices all_prices
                else all_prices) has acc =
         acc @ map (\<lambda>h. (HoldingAnalysis.ticker h,
                           get_historical_prices market (HoldingAnalysis.ticker h)))
                 (filter (\<lambda>h. get_historical_prices market (HoldingAnalysis.ticker h) \<noteq> []) has)"
  using assms
proof (induction has arbitrary: acc)
  case Nil
  then show ?case by simp
next
  case (Cons h has)
  let ?k = "HoldingAnalysis.ticker h"
  let ?v = "get_historical_prices market ?k"
  have fresh: "?k \<notin> fst ` set acc" using Cons.prems(2) by auto
  have d: "distinct (map HoldingAnalysis.ticker has)" using Cons.prems(1) by simp
  show ?case
  proof (cases "?v = []")
    case True
    have "set (map HoldingAnalysis.ticker has) \<inter> fst ` set acc = {}"
      using Cons.prems(2) by auto
    from Cons.IH[OF d this] True show ?thesis by simp
  next
    case False
    have "set (map HoldingAnalysis.ticker has) \<inter> fst ` set (acc @ [(?k, ?v)]) = {}"
      using Cons.prems by auto
    from Cons.IH[OF d this] False show ?thesis
      by (simp add: update_fresh[OF fresh])
  qed
qed

lemma all_prices_distinct:
  assumes "distinct (map HoldingAnalysis.ticker has)"
  shows "all_prices_of market has =
         map (\<lambda>h. (HoldingAnalysis.ticker h,
                     get_historical_prices market (HoldingAnalysis.ticker h)))
           (filter (\<lambda>h. get_historical_prices market (HoldingAnalysis.ticker h) \<noteq> []) has)"
  unfolding all_prices_of_def using fold_prices_distinct[OF assms, of "[]" market] by simp

lemma price_weights_length:
  assumes "distinct (map HoldingAnalysis.ticker has)"
  shows "length (price_weights (all_prices_of market has) has) = length (all_prices_of market has)"
proof -
  let ?P = "\<lambda>h. get_historical_prices market (HoldingAnalysis.ticker h) \<noteq> []"
  have "filter (\<lambda>h. HoldingAnalysis.ticker h \<in> fst ` set (all_prices_of market has)) has
        = filter ?P has"
    unfolding all_prices_distinct[OF assms]
    by (rule filter_cong) (auto simp add: image_iff)
  then show ?thesis
    unfolding price_weights_def by (simp add: all_prices_distinct[OF assms])
qed

lemma frame_dot_Inr:
  "length cols = length weights \<Longrightarrow> \<exists>v. frame_dot cols weights = Inr v"
  by (simp add: frame_dot_def)

lemma compute_portfolio_returns_Inr:
  assumes "distinct (map HoldingAnalysis.ticker has)"
  shows "\<exists>v. compute_portfolio_returns market has portfolio = Inr v"
proof -
  have "length (map pct_change_dropna (frame_dropna (map snd (all_prices_of market has)))) =
        length (price_weights (all_prices_of market has) has)"
    by (simp add: frame_dropna_def price_weights_length[OF assms])
  from frame_dot_Inr[OF this] show ?thesis
    by (auto simp add: compute_portfolio_returns_def Let_def)
qed

lemma compute_max_drawdown_Inr:
  assumes "distinct (map HoldingAnalysis.ticker has)"
  shows "\<exists>v. compute_max_drawdown market has portfolio = Inr v"
proof -
  have "length (frame_dropna (map snd (all_prices_of market has))) =
        length (price_weights (all_prices_of market has) has)"
    by (simp add: frame_dropna_def price_weights_length[OF assms])
  from frame_dot_Inr[OF this] show ?thesis
    by (auto simp add: compute_max_drawdown_def Let_def)
qed

lemma build_holdings_analysis_Inr:
  "\<forall>h\<in>set ds. HoldingData.avg_cost h \<noteq> 0 \<Longrightarrow> \<exists>has. build_holdings_analysis tv ds = Inr has"
  by (induction ds) (auto simp add: holding_analysis_of_def)

lemma gather_loop_valid:
  "\<forall>h\<in>set hs. 0 < Holding.quantity h \<and> 0 < Holding.avg_cost h \<Longrightarrow>
   \<forall>d\<in>set (gather_loop market hs). 0 < HoldingData.quantity d \<and> 0 < HoldingData.avg_cost d"
  by (induction hs) (auto split: option.splits)

lemma sum_list_pos_nonempty:
  assumes "xs \<noteq> []" and "\<forall>x\<in>set xs. 0 < f x"
  shows "0 < (sum_list (map f xs) :: real)"
proof (cases xs)
  case Nil
  then show ?thesis using assms(1) by simp
next
  case (Cons a ys)
  have "0 \<le> sum_list (map f ys)"
    using assms(2) Cons by (intro sum_list_nonneg) (auto simp add: less_imp_le)
  moreover have "0 < f a" using assms(2) Cons by simp
  ultimately show ?thesis using Cons by simp
qed

lemma compute_benchmark_total_return_guard:
  "compute_benchmark_total_return market benchmark =
     (if length (get_historical_prices market benchmark) < 2 then Inr 0
      else total_return (hd (get_historical_prices market benchmark))
             (last (get_historical_prices market benchmark)))"
  by (auto simp add: compute_benchmark_total_return_def Let_def)

lemma analyze_returns_on_distinct_tickers:
  assumes valid: "\<forall>h\<in>set (holdings portfolio). 0 < Holding.quantity h \<and> 0 < Holding.avg_cost h"
    and dist: "distinct (map Holding.ticker (holdings portfolio))"
    and bench: "2 \<le> length (get_historical_prices market benchmark) \<longrightarrow>
                0 < hd (get_historical_prices market benchmark)"
  shows "\<exists>r. analyze market portfolio benchmark = Inr r"
proof (cases "gather_holdings_data market portfolio = []")
  case True
  then show ?thesis by (simp add: analyze_def)
next
  case False
  let ?ds = "gather_holdings_data market portfolio"
  let ?tv = "sum_list (map HoldingData.market_value ?ds)"
  let ?tc = "sum_list (map (\<lambda>h. HoldingData.avg_cost h * HoldingData.quantity h) ?ds)"
  have v: "\<forall>d\<in>set ?ds. 0 < HoldingData.quantity d \<and> 0 < HoldingData.avg_cost d"
    using gather_loop_valid[OF valid] by (simp add: gather_holdings_data_def)
  then have "\<forall>h\<in>set ?ds. HoldingData.avg_cost h \<noteq> 0" by auto
  from build_holdings_analysis_Inr[OF this] obtain has where
    has: "build_holdings_analysis ?tv ?ds = Inr has" by blast
  have "map HoldingAnalysis.ticker has = map Holding.ticker (filter (resolvable market) (holdings portfolio))"
    using build_fields(1)[OF has] gather_loop_tickers[of market "holdings portfolio"]
    by (simp add: gather_holdings_data_def)
  then have d: "distinct (map HoldingAnalysis.ticker has)"
    using dist by (simp add: distinct_map_filter)
  obtain pr where pr: "compute_portfolio_returns market has portfolio = Inr pr"
    using compute_portfolio_returns_Inr[OF d] by blast
  obtain mdd where mdd: "compute_max_drawdown market has portfolio = Inr mdd"
    using compute_max_drawdown_Inr[OF d] by blast
  have "0 < ?tc"
    using sum_list_pos_nonempty[OF False, of "\<lambda>h. HoldingData.avg_cost h * HoldingData.quantity h"] v
    by simp
  then obtain tr where tr: "total_return ?tc ?tv = Inr tr"
    by (simp add: total_return_def)
  obtain ar where ar: "annualized_return tr 1 = Inr ar"
    by (simp add: annualized_return_def)
  have "\<exists>bt. compute_benchmark_total_return market benchmark = Inr bt"
  proof (cases "length (get_historical_prices market benchmark) < 2")
    case True
    then show ?thesis by (simp add: compute_benchmark_total_return_guard)
  next
    case False
    then have "0 < hd (get_historical_prices market benchmark)" using bench by simp
    then show ?thesis using False
      by (simp add: compute_benchmark_total_return_guard total_return_def)
  qed
  then obtain bt where bt: "compute_benchmark_total_return market benchmark = Inr bt"
    by blast
  show ?thesis
    using False has pr mdd tr ar bt by (simp add: analyze_def Let_def)
qed

end
